theory Spec2Isabelle
  imports Main
begin

section \<open>The faucet service of run.mjs\<close>

text \<open>
  The service is one Express application: a rate limiter and body parsers installed with
  \<^verbatim>\<open>app.use\<close>, one route \<^verbatim>\<open>POST /api/v1/retrieve\<close>, the payout helper
  \<^verbatim>\<open>payoutFSN\<close> and the connection keeper \<^verbatim>\<open>keepWeb3Alive\<close>.
  Everything the handler awaits (MongoDB through Mongoose, the chain through web3) is an
  external call: its result is read from an environment record, one per request, and a
  rejected promise is an \<open>Inl\<close> (or \<open>Some\<close>) error there. The claim collection and
  the transactions the faucet has broadcast are the state that is passed through. The
  handler gives up control at every \<^verbatim>\<open>await\<close>; it is a step function from one
  \<^verbatim>\<open>await\<close> to the next, so that the steps of overlapping requests can be interleaved.
\<close>

subsection \<open>JavaScript values and errors\<close>

text \<open>
  What \<^verbatim>\<open>req.body\<close> can hold after the parsers ran: a parsed JSON or form value.
  Numbers are kept as integers; the handler only tests them for being a string.
\<close>

datatype jsval =
    JUndefined
  | JNull
  | JBool bool
  | JNum int
  | JStr string
  | JArr "jsval list"
  | JObj "(string \<times> jsval) list"

text \<open>JavaScript truthiness, as \<^verbatim>\<open>!req.body\<close> reads it.\<close>

fun truthy :: "jsval \<Rightarrow> bool" where
  "truthy JUndefined = False"
| "truthy JNull = False"
| "truthy (JBool b) = b"
| "truthy (JNum n) = (n \<noteq> 0)"
| "truthy (JStr s) = (s \<noteq> [])"
| "truthy (JArr xs) = True"
| "truthy (JObj fs) = True"

text \<open>
  \<^verbatim>\<open>let { walletAddress } = req.body\<close>: the property of a parsed object (the last
  occurrence of a repeated key wins, as in \<^verbatim>\<open>JSON.parse\<close>); any other truthy value
  has no such property. The guard before it keeps \<^verbatim>\<open>null\<close> and
  \<^verbatim>\<open>undefined\<close> away from the destructuring.
\<close>

fun get_prop :: "jsval \<Rightarrow> string \<Rightarrow> jsval" where
  "get_prop (JObj fs) k = (case map_of (rev fs) k of None \<Rightarrow> JUndefined | Some v \<Rightarrow> v)"
| "get_prop v k = JUndefined"

text \<open>An object or an array: what body-parser (strict JSON, or a form) leaves in \<^verbatim>\<open>req.body\<close>.\<close>

fun is_object :: "jsval \<Rightarrow> bool" where
  "is_object (JObj fs) = True"
| "is_object (JArr xs) = True"
| "is_object v = False"

fun is_string :: "jsval \<Rightarrow> bool" where
  "is_string (JStr s) = True"
| "is_string v = False"

text \<open>
  The errors the handler can catch: an \<^verbatim>\<open>Error\<close> made with \<^verbatim>\<open>new Error(msg)\<close>
  (by this program or by a library), and a \<^verbatim>\<open>TypeError\<close> raised by the runtime.
  Both carry a message.
\<close>

datatype error = Error string | TypeError string

fun message :: "error \<Rightarrow> string" where
  "message (Error m) = m"
| "message (TypeError m) = m"

text \<open>\<^verbatim>\<open>String.prototype.toLowerCase\<close> on the ASCII letters.\<close>

definition lower_char :: "char \<Rightarrow> char" where
  "lower_char c =
     (case map_of (zip ''ABCDEFGHIJKLMNOPQRSTUVWXYZ'' ''abcdefghijklmnopqrstuvwxyz'') c of
        None \<Rightarrow> c
      | Some d \<Rightarrow> d)"

definition toLowerCase :: "string \<Rightarrow> string" where
  "toLowerCase s = map lower_char s"

subsection \<open>Library functions the handler calls\<close>

text \<open>
  Pure functions of the libraries and of the runtime, taken as parameters:
  \<^verbatim>\<open>web3.utils.isAddress\<close>; the text the template literal gives for
  \<^verbatim>\<open>Number(web3.utils.fromWei(balance))\<close>; the message of the TypeError the engine
  raises when \<^verbatim>\<open>.toLowerCase()\<close> is called on a value that is not a string; and
  moment's \<^verbatim>\<open>.subtract("1", "days")\<close> on a time in milliseconds since the epoch, which
  goes back one calendar day of the server's time zone (24 hours, or 23 or 25 when the
  zone's offset changes within that day).
\<close>

record lib =
  isAddress :: "string \<Rightarrow> bool"
  show_bal :: "nat \<Rightarrow> string"
  type_error_text :: "jsval \<Rightarrow> string"
  subtract_1_day :: "int \<Rightarrow> int"

text \<open>
  What \<^verbatim>\<open>web3.utils.isAddress\<close> computes on a string without upper-case letters: its
  regular expression \<^verbatim>\<open>/^(0x)?[0-9a-f]{40}$/\<close> (the checksum test is for mixed case
  only). An instance of the parameter, used to run the model on concrete requests.
\<close>

definition is_hex_digit :: "char \<Rightarrow> bool" where
  "is_hex_digit c =
     (let n = (of_char c :: nat) in (48 \<le> n \<and> n \<le> 57) \<or> (97 \<le> n \<and> n \<le> 102))"

definition isAddress_lower :: "string \<Rightarrow> bool" where
  "isAddress_lower s =
     (let h = (if take 2 s = ''0x'' then drop 2 s else s)
      in length h = 40 \<and> list_all is_hex_digit h)"

text \<open>\<^verbatim>\<open>walletAddress.toLowerCase()\<close> of line 108: a string method, a TypeError on anything else.\<close>

fun call_toLowerCase :: "lib \<Rightarrow> jsval \<Rightarrow> error + string" where
  "call_toLowerCase l (JStr s) = Inr (toLowerCase s)"
| "call_toLowerCase l v = Inl (TypeError (type_error_text l v))"

subsection \<open>The claim collection\<close>

text \<open>
  Modelled from the spec: the schema \<^verbatim>\<open>models/Addresses.mjs\<close> is not among the
  sources; a claim record has the three fields the handler reads and writes.
  \<open>lastVisit\<close> is a time in milliseconds since the epoch.
\<close>

record claim =
  walletAddress :: string
  ipAddress :: string
  lastVisit :: int

text \<open>
  \<^verbatim>\<open>Address.findOne(filter)\<close>: the first document that matches, or null; the query can be
  rejected (\<open>Some e\<close> in the environment).
\<close>

definition findOne :: "error option \<Rightarrow> (claim \<Rightarrow> bool) \<Rightarrow> claim list \<Rightarrow> error + claim option" where
  "findOne fails flt docs = (case fails of Some e \<Rightarrow> Inl e | None \<Rightarrow> Inr (List.find flt docs))"

text \<open>
  \<^verbatim>\<open>updateOne(filter, doc, { upsert: true })\<close>: the first matching document gets the
  fields of \<open>doc\<close>; with no match, \<open>doc\<close> is inserted.
\<close>

fun upsert :: "(claim \<Rightarrow> bool) \<Rightarrow> claim \<Rightarrow> claim list \<Rightarrow> claim list" where
  "upsert flt doc [] = [doc]"
| "upsert flt doc (r # rs) = (if flt r then doc # rs else r # upsert flt doc rs)"

definition updateOne :: "error option \<Rightarrow> (claim \<Rightarrow> bool) \<Rightarrow> claim \<Rightarrow> claim list \<Rightarrow> error + claim list" where
  "updateOne fails flt doc docs = (case fails of Some e \<Rightarrow> Inl e | None \<Rightarrow> Inr (upsert flt doc docs))"

subsection \<open>The payout\<close>

record tx =
  from_addr :: string
  to_addr :: string
  asset :: string
  amount :: nat
  chainId :: nat
  gas :: "nat option"
  gasPrice :: "nat option"

record receipt =
  transactionHash :: string

text \<open>
  The state: the collection, and the signed transactions that
  \<^verbatim>\<open>sendSignedTransaction\<close> has broadcast with success, oldest first.
\<close>

record world =
  db :: "claim list"
  sent :: "tx list"

text \<open>
  The results of one request's external calls. \<open>now_moment\<close> is the clock at
  \<^verbatim>\<open>moment()\<close> (line 120), \<open>now_date\<close> at \<^verbatim>\<open>new Date()\<close> (line 154).
  A query, a signature or a write that has no result of interest is an \<open>error option\<close>:
  \<open>None\<close> when it returns, \<open>Some err\<close> when it is rejected with \<open>err\<close>. The raw
  transaction that \<^verbatim>\<open>signTransaction\<close> returns is the transaction it was given, signed.
  \<open>res_json_fails\<close> is \<^verbatim>\<open>res.json\<close> of line 158 raising an error.
\<close>

record env =
  now_moment :: int
  now_date :: int
  findOne_wallet_fails :: "error option"
  findOne_ip_fails :: "error option"
  getBalance :: "string \<Rightarrow> error + nat"
  getTransactionCount :: "string \<Rightarrow> error + nat"
  privateKeyToAccount :: "error + string"
  buildSendAssetTx :: "tx \<Rightarrow> error + nat \<times> nat"
  signTransaction_fails :: "tx \<Rightarrow> error option"
  sendSignedTransaction :: "tx \<Rightarrow> error + receipt"
  updateOne_fails :: "error option"
  res_json_fails :: "error option"

text \<open>\<^verbatim>\<open>NETWORK = FSN_TESTNET\<close>, its \<^verbatim>\<open>ID: "46688"\<close>; the asset's symbolic name.\<close>

definition NETWORK_ID :: nat where
  "NETWORK_ID = 46688"

definition FSNToken :: string where
  "FSNToken = ''FSNToken''"

text \<open>\<^verbatim>\<open>web3.utils.toWei("2", "gwei")\<close>, in wei.\<close>

definition payout_wei :: nat where
  "payout_wei = 2 * 10 ^ 9"

text \<open>
  \<^verbatim>\<open>payoutFSN\<close> (lines 79-99). The account lookup and the transaction builder are
  outside the \<^verbatim>\<open>try\<close>: their errors pass through. Signing and sending are inside:
  their errors are replaced by \<^verbatim>\<open>new Error("Sending faucet gas failed: ", err.message)\<close>,
  whose message is the first argument alone.
\<close>

definition new_tx :: "string \<Rightarrow> string \<Rightarrow> tx" where
  "new_tx faucet addr =
     \<lparr>from_addr = faucet, to_addr = addr, asset = FSNToken,
      amount = payout_wei, chainId = NETWORK_ID, gas = None, gasPrice = None\<rparr>"

definition payoutFSN :: "env \<Rightarrow> string \<Rightarrow> world \<Rightarrow> world \<times> (error + receipt)" where
  "payoutFSN e addr w =
     (case privateKeyToAccount e of
        Inl err \<Rightarrow> (w, Inl err)
      | Inr faucet \<Rightarrow>
          let t = new_tx faucet addr
          in (case buildSendAssetTx e t of
                Inl err \<Rightarrow> (w, Inl err)
              | Inr (g, gp) \<Rightarrow>
                  let t' = t\<lparr>gas := Some g, gasPrice := Some gp\<rparr>
                  in (case signTransaction_fails e t' of
                        Some err \<Rightarrow> (w, Inl (Error ''Sending faucet gas failed: ''))
                      | None \<Rightarrow>
                          (case sendSignedTransaction e t' of
                             Inl err \<Rightarrow> (w, Inl (Error ''Sending faucet gas failed: ''))
                           | Inr rcpt \<Rightarrow> (w\<lparr>sent := sent w @ [t']\<rparr>, Inr rcpt)))))"

subsection \<open>The request handler\<close>

record request =
  verb :: string
  path :: string
  body :: jsval
  x_forwarded_for :: "string option"
  remoteAddress :: string

text \<open>
  A response body: a string given to \<^verbatim>\<open>res.send\<close>, the JSON object
  \<^verbatim>\<open>{ txHash, status }\<close>, or the page a library writes by itself (the limiter's
  refusal, the framework's 404). Headers such as the content type are not modelled.
\<close>

datatype body = Text string | Json string string | LibraryDefault

record response =
  status :: nat
  content :: body

text \<open>\<^verbatim>\<open>res.sendStatus(400)\<close>: the status with its standard text as the body.\<close>

definition sendStatus400 :: response where
  "sendStatus400 = \<lparr>status = 400, content = Text ''Bad Request''\<rparr>"

text \<open>\<^verbatim>\<open>req.headers["x-forwarded-for"] || req.socket.remoteAddress\<close>: an empty header is falsy.\<close>

definition ip_of :: "request \<Rightarrow> string" where
  "ip_of req =
     (case x_forwarded_for req of
        None \<Rightarrow> remoteAddress req
      | Some h \<Rightarrow> if h \<noteq> [] then h else remoteAddress req)"

text \<open>\<^verbatim>\<open>moment().subtract("1", "days").toDate()\<close> of line 120: one calendar day before the clock.\<close>

definition ONE_DAY :: "lib \<Rightarrow> env \<Rightarrow> int" where
  "ONE_DAY l e = subtract_1_day l (now_moment e)"

text \<open>
  The chain of \<^verbatim>\<open>if ... else if\<close> of lines 134-142, on the four fetched values.
  \<open>bal\<close> is the balance in wei: \<^verbatim>\<open>Number(fromWei(balance))\<close> is falsy exactly when the
  balance is zero.
\<close>

definition eligibility :: "lib \<Rightarrow> claim option \<Rightarrow> claim option \<Rightarrow> nat \<Rightarrow> nat \<Rightarrow> error option" where
  "eligibility l walletAppliedRecently ipRecent txCount bal =
     (if walletAppliedRecently \<noteq> None then Some (Error ''Address has already claimed gas.'')
      else if ipRecent \<noteq> None
        then Some (Error ''Your IP has already claimed gas for an address recently.'')
      else if txCount \<noteq> 0 then Some (Error ''Must be a new, unused address.'')
      else if bal \<noteq> 0 then Some (Error (''Address has a non-zero balance: '' @ show_bal l bal))
      else None)"

text \<open>
  Where a request stands: before its first line, at one of the six \<^verbatim>\<open>await\<close>s of the
  \<^verbatim>\<open>try\<close> block (lines 122, 126, 131, 132, 145, 149) with the values of the local
  variables that are still read, or at its end, with the error that was raised or the
  response that was written.
\<close>

datatype stage =
    Start
  | AwaitWallet string string
  | AwaitIp string string "claim option"
  | AwaitBalance string string "claim option" "claim option"
  | AwaitCount string string "claim option" "claim option" nat
  | AwaitPayout string string
  | AwaitWrite string string receipt
  | Finished "error + response"

text \<open>
  One step of the \<^verbatim>\<open>try\<close> block (lines 104-161): the awaited call is made on the
  state as it is now, and the code runs on to the next \<^verbatim>\<open>await\<close>. The first step is
  the code before the first \<^verbatim>\<open>await\<close>. \<^verbatim>\<open>payoutFSN\<close> is one step: of its own
  \<^verbatim>\<open>await\<close>s only the broadcast touches the state.
\<close>

fun step :: "lib \<Rightarrow> env \<Rightarrow> request \<Rightarrow> stage \<Rightarrow> world \<Rightarrow> world \<times> stage" where
  "step l e req Start w =
     (w, if \<not> truthy (body req) then Finished (Inr sendStatus400)
         else case call_toLowerCase l (get_prop (body req) ''walletAddress'') of
           Inl err \<Rightarrow> Finished (Inl err)
         | Inr wa \<Rightarrow>
             if \<not> isAddress l wa
             then Finished (Inl (Error ''Wallet address does not appear to be valid.''))
             else AwaitWallet wa (ip_of req))"
| "step l e req (AwaitWallet wa ip) w =
     (w, case findOne (findOne_wallet_fails e) (\<lambda>r. walletAddress r = wa) (db w) of
           Inl err \<Rightarrow> Finished (Inl err)
         | Inr walletAppliedRecently \<Rightarrow> AwaitIp wa ip walletAppliedRecently)"
| "step l e req (AwaitIp wa ip walletAppliedRecently) w =
     (w, case findOne (findOne_ip_fails e)
                (\<lambda>r. ipAddress r = ip \<and> ONE_DAY l e \<le> lastVisit r) (db w) of
           Inl err \<Rightarrow> Finished (Inl err)
         | Inr ipRecent \<Rightarrow> AwaitBalance wa ip walletAppliedRecently ipRecent)"
| "step l e req (AwaitBalance wa ip walletAppliedRecently ipRecent) w =
     (w, case getBalance e wa of
           Inl err \<Rightarrow> Finished (Inl err)
         | Inr bal \<Rightarrow> AwaitCount wa ip walletAppliedRecently ipRecent bal)"
| "step l e req (AwaitCount wa ip walletAppliedRecently ipRecent bal) w =
     (w, case getTransactionCount e wa of
           Inl err \<Rightarrow> Finished (Inl err)
         | Inr txCount \<Rightarrow>
             (case eligibility l walletAppliedRecently ipRecent txCount bal of
                Some err \<Rightarrow> Finished (Inl err)
              | None \<Rightarrow> AwaitPayout wa ip))"
| "step l e req (AwaitPayout wa ip) w =
     (case payoutFSN e wa w of
        (w1, Inl err) \<Rightarrow> (w1, Finished (Inl err))
      | (w1, Inr rcpt) \<Rightarrow> (w1, AwaitWrite wa ip rcpt))"
| "step l e req (AwaitWrite wa ip rcpt) w =
     (case updateOne (updateOne_fails e)
             (\<lambda>r. walletAddress r = wa \<and> ipAddress r = ip)
             \<lparr>walletAddress = wa, ipAddress = ip, lastVisit = now_date e\<rparr> (db w) of
        Inl err \<Rightarrow> (w, Finished (Inl err))
      | Inr docs \<Rightarrow>
          (w\<lparr>db := docs\<rparr>,
           case res_json_fails e of
             Some err \<Rightarrow> Finished (Inl err)
           | None \<Rightarrow>
               Finished (Inr \<lparr>status = 200,
                              content = Json (transactionHash rcpt)
                                (''Success. Gas will be sent to '' @ wa @ '' shortly.'')\<rparr>)))"
| "step l e req (Finished r) w = (w, Finished r)"

text \<open>The number of steps a request has left, at most.\<close>

fun rank :: "stage \<Rightarrow> nat" where
  "rank Start = 7"
| "rank (AwaitWallet wa ip) = 6"
| "rank (AwaitIp wa ip wr) = 5"
| "rank (AwaitBalance wa ip wr ir) = 4"
| "rank (AwaitCount wa ip wr ir bal) = 3"
| "rank (AwaitPayout wa ip) = 2"
| "rank (AwaitWrite wa ip rcpt) = 1"
| "rank (Finished r) = 0"

text \<open>A request run to its end with no step of another request in between.\<close>

function (sequential) finish ::
    "lib \<Rightarrow> env \<Rightarrow> request \<Rightarrow> stage \<Rightarrow> world \<Rightarrow> world \<times> (error + response)" where
  "finish l e req (Finished r) w = (w, r)"
| "finish l e req st w = (case step l e req st w of (w', st') \<Rightarrow> finish l e req st' w')"
  by pat_completeness auto
termination
  by (relation "measure (\<lambda>(l, e, req, st, w). rank st)")
    (auto split: if_splits sum.splits option.splits prod.splits)

text \<open>The \<^verbatim>\<open>try\<close> block of a request that is handled alone: the state, and an error or a response.\<close>

definition retrieve_try :: "lib \<Rightarrow> env \<Rightarrow> request \<Rightarrow> world \<Rightarrow> world \<times> (error + response)" where
  "retrieve_try l e req w = finish l e req Start w"

text \<open>
  The handler of a request that is handled alone: the \<^verbatim>\<open>catch\<close> of lines 162-165
  answers 400 with the error's message.
\<close>

definition retrieve :: "lib \<Rightarrow> env \<Rightarrow> request \<Rightarrow> world \<Rightarrow> world \<times> response" where
  "retrieve l e req w =
     (case retrieve_try l e req w of
        (w', Inr res) \<Rightarrow> (w', res)
      | (w', Inl err) \<Rightarrow> (w', \<lparr>status = 400, content = Text (message err)\<rparr>))"

text \<open>
  Requests in flight, each with the results of its external calls and the stage it has
  reached. A schedule names, step by step, the request that runs next; a number that
  names no request is skipped.
\<close>

type_synonym task = "env \<times> request \<times> stage"

definition advance :: "lib \<Rightarrow> nat \<Rightarrow> task list \<times> world \<Rightarrow> task list \<times> world" where
  "advance l i pw =
     (case pw of (pool, w) \<Rightarrow>
        if i < length pool
        then (case pool ! i of (e, req, st) \<Rightarrow>
                (case step l e req st w of (w', st') \<Rightarrow> (pool[i := (e, req, st')], w')))
        else (pool, w))"

fun interleave :: "lib \<Rightarrow> nat list \<Rightarrow> task list \<times> world \<Rightarrow> task list \<times> world" where
  "interleave l [] pw = pw"
| "interleave l (i # sched) pw = interleave l sched (advance l i pw)"

subsection \<open>Predicates on the state and on the external calls\<close>

text \<open>The wallet has a claim record, whatever its age.\<close>

definition has_wallet_record :: "claim list \<Rightarrow> string \<Rightarrow> bool" where
  "has_wallet_record docs wa = (\<exists>r \<in> set docs. walletAddress r = wa)"

text \<open>The IP has a claim record whose \<open>lastVisit\<close> is at or after the cutoff.\<close>

definition has_recent_ip_record :: "claim list \<Rightarrow> string \<Rightarrow> int \<Rightarrow> bool" where
  "has_recent_ip_record docs ip cutoff =
     (\<exists>r \<in> set docs. ipAddress r = ip \<and> cutoff \<le> lastVisit r)"

text \<open>The two database lookups and the two chain queries of lines 122-132 return, with these values.\<close>

definition lookups_return :: "env \<Rightarrow> string \<Rightarrow> nat \<Rightarrow> nat \<Rightarrow> bool" where
  "lookups_return e wa bal txCount =
     (findOne_wallet_fails e = None \<and> findOne_ip_fails e = None \<and>
      getBalance e wa = Inr bal \<and> getTransactionCount e wa = Inr txCount)"

text \<open>The transaction \<^verbatim>\<open>payoutFSN\<close> signs and sends, with the gas figures the builder gave.\<close>

definition payout_tx :: "string \<Rightarrow> string \<Rightarrow> nat \<Rightarrow> nat \<Rightarrow> tx" where
  "payout_tx faucet addr g gp = (new_tx faucet addr)\<lparr>gas := Some g, gasPrice := Some gp\<rparr>"

text \<open>Every call of \<^verbatim>\<open>payoutFSN\<close> returns: the account, the builder, the signature, the broadcast.\<close>

definition payout_returns :: "env \<Rightarrow> string \<Rightarrow> string \<Rightarrow> nat \<Rightarrow> nat \<Rightarrow> receipt \<Rightarrow> bool" where
  "payout_returns e addr faucet g gp rcpt =
     (privateKeyToAccount e = Inr faucet \<and>
      buildSendAssetTx e (new_tx faucet addr) = Inr (g, gp) \<and>
      signTransaction_fails e (payout_tx faucet addr g gp) = None \<and>
      sendSignedTransaction e (payout_tx faucet addr g gp) = Inr rcpt)"

text \<open>
  One of the five checks fails: the address is malformed, the wallet has a record, the IP
  has a recent record, or a chain query returned a count or a balance that is not zero.
\<close>

definition fails_a_check :: "lib \<Rightarrow> env \<Rightarrow> world \<Rightarrow> string \<Rightarrow> string \<Rightarrow> bool" where
  "fails_a_check l e w wa ip =
     (\<not> isAddress l wa \<or> has_wallet_record (db w) wa \<or>
      has_recent_ip_record (db w) ip (ONE_DAY l e) \<or>
      (case getTransactionCount e wa of Inl err \<Rightarrow> False | Inr n \<Rightarrow> n \<noteq> 0) \<or>
      (case getBalance e wa of Inl err \<Rightarrow> False | Inr b \<Rightarrow> b \<noteq> 0))"

text \<open>The key of a claim record, and the number of records with a key.\<close>

definition pair_of :: "claim \<Rightarrow> string \<times> string" where
  "pair_of r = (walletAddress r, ipAddress r)"

definition records_of :: "claim list \<Rightarrow> string \<times> string \<Rightarrow> nat" where
  "records_of docs k = length (filter (\<lambda>r. pair_of r = k) docs)"

subsection \<open>The rate limiter and the application\<close>

record limiter_cfg =
  windowMs :: nat
  max_hits :: nat

text \<open>Lines 22-25: \<^verbatim>\<open>rateLimit({ windowMs: 15 * 60 * 1000, max: 10 })\<close>.\<close>

definition limiter :: limiter_cfg where
  "limiter = \<lparr>windowMs = 15 * 60 * 1000, max_hits = 10\<rparr>"

record limit_store =
  window :: nat
  hits :: "string \<Rightarrow> nat"

text \<open>
  Modelled from the spec: the counting of express-rate-limit is not among the sources.
  Time is cut into windows of \<open>windowMs\<close> milliseconds from the start of the server; the
  limiter counts the requests of each source IP in the current window, and lets a
  request pass while the count, this request included, is at most \<open>max_hits\<close>.
\<close>

definition rate_limit :: "limiter_cfg \<Rightarrow> nat \<Rightarrow> string \<Rightarrow> limit_store \<Rightarrow> limit_store \<times> bool" where
  "rate_limit cfg t ip st =
     (let k = t div windowMs cfg;
          h = (if k = window st then hits st else (\<lambda>i. 0));
          n = h ip + 1
      in (\<lparr>window = k, hits = h(ip := n)\<rparr>, n \<le> max_hits cfg))"

record server =
  state :: world
  limits :: limit_store

definition server0 :: server where
  "server0 = \<lparr>state = \<lparr>db = [], sent = []\<rparr>, limits = \<lparr>window = 0, hits = (\<lambda>i. 0)\<rparr>\<rparr>"

text \<open>
  The application: \<^verbatim>\<open>app.use(limiter)\<close> (line 43) comes before everything else, so
  every request is counted, on every route, under its source IP (\<^verbatim>\<open>req.ip\<close>, the
  socket's address). A refused request is answered by the limiter (429); a request for
  another route by the framework (404). \<open>t\<close> is the arrival time in milliseconds since
  the start of the server. Of the body parsers that come next, the model keeps the body
  they leave in the request.
\<close>

definition app :: "lib \<Rightarrow> env \<Rightarrow> nat \<Rightarrow> request \<Rightarrow> server \<Rightarrow> server \<times> response" where
  "app l e t req sv =
     (case rate_limit limiter t (remoteAddress req) (limits sv) of
        (st, False) \<Rightarrow> (sv\<lparr>limits := st\<rparr>, \<lparr>status = 429, content = LibraryDefault\<rparr>)
      | (st, True) \<Rightarrow>
          if verb req = ''POST'' \<and> path req = ''/api/v1/retrieve''
          then (case retrieve l e req (state sv) of
                  (w, res) \<Rightarrow> (\<lparr>state = w, limits = st\<rparr>, res))
          else (sv\<lparr>limits := st\<rparr>, \<lparr>status = 404, content = LibraryDefault\<rparr>))"

text \<open>The responses to a sequence of requests, each with its arrival time.\<close>

fun serve :: "lib \<Rightarrow> (nat \<times> env \<times> request) list \<Rightarrow> server \<Rightarrow> response list" where
  "serve l [] sv = []"
| "serve l ((t, e, req) # rest) sv =
     (case app l e t req sv of (sv', res) \<Rightarrow> res # serve l rest sv')"

text \<open>The requests of source IP \<open>ip\<close> in window \<open>k\<close> that were not refused by the limiter.\<close>

definition passed :: "lib \<Rightarrow> (nat \<times> env \<times> request) list \<Rightarrow> server \<Rightarrow> string \<Rightarrow> nat \<Rightarrow> nat" where
  "passed l reqs sv ip k =
     length (filter (\<lambda>((t, e, req), res).
                remoteAddress req = ip \<and> t div windowMs limiter = k \<and> status res \<noteq> 429)
              (zip reqs (serve l reqs sv)))"

text \<open>
  How many more requests of \<open>ip\<close> can pass in window \<open>k\<close>, given the store: none in a
  window that is over, the rest of the allowance in the current one, all of it later.
\<close>

definition room :: "limit_store \<Rightarrow> string \<Rightarrow> nat \<Rightarrow> nat" where
  "room st ip k =
     (if k < window st then 0
      else if k = window st then max_hits limiter - hits st ip
      else max_hits limiter)"

subsection \<open>The connection keeper\<close>

text \<open>
  \<^verbatim>\<open>keepWeb3Alive\<close> (lines 60-76) and its three event handlers. \<open>isConnected\<close> is
  \<^verbatim>\<open>web3._isConnected\<close>, unset on a new \<^verbatim>\<open>web3\<close> object; \<open>provider\<close> numbers the
  provider objects made so far, the last one being the current one; \<open>timers\<close> are the
  delays of the pending \<^verbatim>\<open>setTimeout\<close> callbacks; \<open>scheduled\<close> and \<open>disconnects\<close> log
  every \<^verbatim>\<open>setTimeout\<close> delay and every provider \<^verbatim>\<open>disconnect()\<close> was called on.
\<close>

record keeper =
  isConnected :: "bool option"
  provider :: nat
  timers :: "nat list"
  scheduled :: "nat list"
  disconnects :: "nat list"

datatype event = OnConnect | OnError | OnEnd | OnTimeout

definition keepWeb3Alive :: "keeper \<Rightarrow> keeper" where
  "keepWeb3Alive k = k\<lparr>provider := Suc (provider k), isConnected := None\<rparr>"

fun handle :: "event \<Rightarrow> keeper \<Rightarrow> keeper" where
  "handle OnConnect k = k\<lparr>isConnected := Some True\<rparr>"
| "handle OnError k = k\<lparr>disconnects := disconnects k @ [provider k]\<rparr>"
| "handle OnEnd k =
     k\<lparr>isConnected := Some False, timers := timers k @ [500], scheduled := scheduled k @ [500]\<rparr>"
| "handle OnTimeout k =
     (case timers k of [] \<Rightarrow> k | d # ds \<Rightarrow> keepWeb3Alive (k\<lparr>timers := ds\<rparr>))"

fun keep :: "event list \<Rightarrow> keeper \<Rightarrow> keeper" where
  "keep [] k = k"
| "keep (ev # evs) k = keep evs (handle ev k)"

text \<open>The keeper after the call of line 172, before any event.\<close>

definition keeper0 :: keeper where
  "keeper0 =
     keepWeb3Alive \<lparr>isConnected = None, provider = 0, timers = [], scheduled = [], disconnects = []\<rparr>"

subsection \<open>Concrete requests\<close>

text \<open>The messages V8 gives the TypeError of a method call on a value that has no such method.\<close>

fun v8_type_error_text :: "jsval \<Rightarrow> string" where
  "v8_type_error_text JUndefined = ''Cannot read properties of undefined (reading 'toLowerCase')''"
| "v8_type_error_text JNull = ''Cannot read properties of null (reading 'toLowerCase')''"
| "v8_type_error_text v = ''walletAddress.toLowerCase is not a function''"

text \<open>A server whose time zone has no offset changes: a day is 24 hours.\<close>

definition lib0 :: lib where
  "lib0 = \<lparr>isAddress = isAddress_lower, show_bal = (\<lambda>n. ''2e-9''),
           type_error_text = v8_type_error_text,
           subtract_1_day = (\<lambda>t. t - 24 * 60 * 60 * 1000)\<rparr>"

text \<open>
  The same server on the day after its zone's clocks were put forward, or back, by an
  hour: the calendar day before is 23, or 25, hours long.
\<close>

definition lib_short_day :: lib where
  "lib_short_day = lib0\<lparr>subtract_1_day := (\<lambda>t. t - 23 * 60 * 60 * 1000)\<rparr>"

definition lib_long_day :: lib where
  "lib_long_day = lib0\<lparr>subtract_1_day := (\<lambda>t. t - 25 * 60 * 60 * 1000)\<rparr>"

definition addrA :: string where
  "addrA = ''0x00000000000000000000000000000000000000a1''"

definition addrB :: string where
  "addrB = ''0x00000000000000000000000000000000000000b2''"

definition faucet0 :: string where
  "faucet0 = ''0x00000000000000000000000000000000000000ff''"

definition rcpt0 :: receipt where
  "rcpt0 = \<lparr>transactionHash = ''0xabc''\<rparr>"

text \<open>An environment in which every external call returns, on a fresh chain.\<close>

definition env_ok :: env where
  "env_ok =
     \<lparr>now_moment = 1700000000000, now_date = 1700000000050,
      findOne_wallet_fails = None, findOne_ip_fails = None,
      getBalance = (\<lambda>a. Inr 0), getTransactionCount = (\<lambda>a. Inr 0),
      privateKeyToAccount = Inr faucet0,
      buildSendAssetTx = (\<lambda>t. Inr (21000, 1000000000)),
      signTransaction_fails = (\<lambda>t. None),
      sendSignedTransaction = (\<lambda>t. Inr rcpt0),
      updateOne_fails = None, res_json_fails = None\<rparr>"

definition post :: "jsval \<Rightarrow> string \<Rightarrow> request" where
  "post b ip =
     \<lparr>verb = ''POST'', path = ''/api/v1/retrieve'', body = b,
      x_forwarded_for = None, remoteAddress = ip\<rparr>"

definition wallet_body :: "string \<Rightarrow> jsval" where
  "wallet_body s = JObj [(''walletAddress'', JStr s)]"

definition world0 :: world where
  "world0 = \<lparr>db = [], sent = []\<rparr>"

text \<open>The address \<open>addrA\<close> as a client may write it, and two source addresses.\<close>

definition addrA_mixed :: string where
  "addrA_mixed = ''0x00000000000000000000000000000000000000A1''"

definition ip1 :: string where
  "ip1 = ''203.0.113.7''"

definition ip2 :: string where
  "ip2 = ''198.51.100.9''"

text \<open>A request for another route.\<close>

definition get_root :: "string \<Rightarrow> request" where
  "get_root ip =
     \<lparr>verb = ''GET'', path = ''/'', body = JObj [], x_forwarded_for = None, remoteAddress = ip\<rparr>"

text \<open>Twelve requests of one source IP, five seconds after the start of the server.\<close>

definition burst :: "(nat \<times> env \<times> request) list" where
  "burst =
     (let r = (5000, env_ok, get_root ip1) in [r, r, r, r, r, r, r, r, r, r, r, r])"

text \<open>The state after \<open>addrA\<close> was paid from \<open>ip1\<close> under \<open>env_ok\<close>.\<close>

definition world1 :: world where
  "world1 = \<lparr>db = [\<lparr>walletAddress = addrA, ipAddress = ip1, lastVisit = 1700000000050\<rparr>],
          sent = [payout_tx faucet0 addrA 21000 1000000000]\<rparr>"

text \<open>A state in which \<open>addrA\<close> has a record from the first second of 1970.\<close>

definition world_old :: world where
  "world_old = \<lparr>db = [\<lparr>walletAddress = addrA, ipAddress = ip1, lastVisit = 0\<rparr>], sent = []\<rparr>"

text \<open>Environments in which one external call is rejected, and one of a used, funded address.\<close>

definition env_send_fails :: env where
  "env_send_fails =
     env_ok\<lparr>sendSignedTransaction := (\<lambda>t. Inl (Error ''Returned error: insufficient funds''))\<rparr>"

definition env_rpc_down :: env where
  "env_rpc_down = env_ok\<lparr>getBalance := (\<lambda>a. Inl (Error ''connection not open on send()''))\<rparr>"

definition env_write_fails :: env where
  "env_write_fails = env_ok\<lparr>updateOne_fails := Some (Error ''buffering timed out'')\<rparr>"

definition env_sign_fails :: env where
  "env_sign_fails =
     env_ok\<lparr>signTransaction_fails := (\<lambda>t. Some (Error ''Private key must be 32 bytes long''))\<rparr>"

definition env_json_fails :: env where
  "env_json_fails = env_ok\<lparr>res_json_fails := Some (Error ''write after end'')\<rparr>"

definition env_db_down :: env where
  "env_db_down = env_ok\<lparr>findOne_wallet_fails := Some (Error ''Topology is closed'')\<rparr>"

definition env_count_fails :: env where
  "env_count_fails =
     env_ok\<lparr>getTransactionCount := (\<lambda>a. Inl (Error ''Invalid JSON RPC response''))\<rparr>"

text \<open>An hour after \<open>env_ok\<close>, on a chain that has not yet seen the first payout.\<close>

definition env_later :: env where
  "env_later = env_ok\<lparr>now_moment := 1700003600000, now_date := 1700003600050\<rparr>"

text \<open>
  Twenty-three and a half hours, and twenty-four and a half hours, after the record that
  \<open>env_ok\<close> stamps.
\<close>

definition env_23h30 :: env where
  "env_23h30 = env_ok\<lparr>now_moment := 1700084600050, now_date := 1700084600100\<rparr>"

definition env_24h30 :: env where
  "env_24h30 = env_ok\<lparr>now_moment := 1700088200050, now_date := 1700088200100\<rparr>"

definition env_used :: env where
  "env_used =
     env_ok\<lparr>getBalance := (\<lambda>a. Inr 2000000000), getTransactionCount := (\<lambda>a. Inr 3)\<rparr>"

definition env_funded :: env where
  "env_funded = env_ok\<lparr>getBalance := (\<lambda>a. Inr 2000000000)\<rparr>"

text \<open>A fifth of a second after \<open>env_ok\<close>, on a chain that has not yet seen the first payout.\<close>

definition env_soon :: env where
  "env_soon = env_ok\<lparr>now_moment := 1700000000200, now_date := 1700000000250\<rparr>"

text \<open>
  Two requests for the same address from the same IP, a fifth of a second apart, and a
  schedule that runs their steps in turn.
\<close>

definition twice :: "task list" where
  "twice =
     [(env_ok, post (wallet_body addrA) ip1, Start),
      (env_soon, post (wallet_body addrA) ip1, Start)]"

definition in_turn :: "nat list" where
  "in_turn = [0, Suc 0, 0, Suc 0, 0, Suc 0, 0, Suc 0, 0, Suc 0, 0, Suc 0, 0, Suc 0]"

section \<open>Properties of the handler\<close>

subsection \<open>A request that is handled alone\<close>

text \<open>The steps of one request on one state, written out: the \<^verbatim>\<open>try\<close> block as it reads.\<close>

lemma retrieve_try_unfold:
  "retrieve_try l e req w =
     (if \<not> truthy (body req) then (w, Inr sendStatus400)
      else case call_toLowerCase l (get_prop (body req) ''walletAddress'') of
        Inl err \<Rightarrow> (w, Inl err)
      | Inr wa \<Rightarrow>
          if \<not> isAddress l wa
          then (w, Inl (Error ''Wallet address does not appear to be valid.''))
          else
            (case findOne (findOne_wallet_fails e) (\<lambda>r. walletAddress r = wa) (db w) of
               Inl err \<Rightarrow> (w, Inl err)
             | Inr walletAppliedRecently \<Rightarrow>
            (case findOne (findOne_ip_fails e)
                    (\<lambda>r. ipAddress r = ip_of req \<and> ONE_DAY l e \<le> lastVisit r) (db w) of
               Inl err \<Rightarrow> (w, Inl err)
             | Inr ipRecent \<Rightarrow>
            (case getBalance e wa of
               Inl err \<Rightarrow> (w, Inl err)
             | Inr bal \<Rightarrow>
            (case getTransactionCount e wa of
               Inl err \<Rightarrow> (w, Inl err)
             | Inr txCount \<Rightarrow>
            (case eligibility l walletAppliedRecently ipRecent txCount bal of
               Some err \<Rightarrow> (w, Inl err)
             | None \<Rightarrow>
            (case payoutFSN e wa w of
               (w1, Inl err) \<Rightarrow> (w1, Inl err)
             | (w1, Inr rcpt) \<Rightarrow>
            (case updateOne (updateOne_fails e)
                    (\<lambda>r. walletAddress r = wa \<and> ipAddress r = ip_of req)
                    \<lparr>walletAddress = wa, ipAddress = ip_of req, lastVisit = now_date e\<rparr>
                    (db w1) of
               Inl err \<Rightarrow> (w1, Inl err)
             | Inr docs \<Rightarrow>
                 (w1\<lparr>db := docs\<rparr>,
                  case res_json_fails e of
                    Some err \<Rightarrow> Inl err
                  | None \<Rightarrow>
                      Inr \<lparr>status = 200,
                           content = Json (transactionHash rcpt)
                             (''Success. Gas will be sent to '' @ wa @ '' shortly.'')\<rparr>)))))))))"
  by (simp add: retrieve_try_def split: sum.split option.split prod.split)


lemma find_wallet:
  "(List.find (\<lambda>r. walletAddress r = wa) docs = None) = (\<not> has_wallet_record docs wa)"
  by (auto simp: has_wallet_record_def find_None_iff)

lemma find_ip:
  "(List.find (\<lambda>r. ipAddress r = ip \<and> c \<le> lastVisit r) docs = None)
     = (\<not> has_recent_ip_record docs ip c)"
  by (auto simp: has_recent_ip_record_def find_None_iff)

lemma get_prop_truthy: "get_prop b k = JStr s \<Longrightarrow> truthy b"
  by (cases b) auto

text \<open>
  The handler from the eligibility checks on, once the address is read and valid and the
  four lookups have returned.
\<close>

lemma retrieve_try_fetched:
  assumes "get_prop (body req) ''walletAddress'' = JStr s"
    and "isAddress l (toLowerCase s)" and "lookups_return e (toLowerCase s) bal txCount"
  shows "retrieve_try l e req w =
    (case eligibility l (List.find (\<lambda>r. walletAddress r = toLowerCase s) (db w))
            (List.find (\<lambda>r. ipAddress r = ip_of req \<and> ONE_DAY l e \<le> lastVisit r) (db w))
            txCount bal of
       Some err \<Rightarrow> (w, Inl err)
     | None \<Rightarrow>
         (case payoutFSN e (toLowerCase s) w of
            (w1, Inl err) \<Rightarrow> (w1, Inl err)
          | (w1, Inr rcpt) \<Rightarrow>
              (case updateOne (updateOne_fails e)
                      (\<lambda>r. walletAddress r = toLowerCase s \<and> ipAddress r = ip_of req)
                      \<lparr>walletAddress = toLowerCase s, ipAddress = ip_of req,
                       lastVisit = now_date e\<rparr> (db w1) of
                 Inl err \<Rightarrow> (w1, Inl err)
               | Inr docs \<Rightarrow>
                   (w1\<lparr>db := docs\<rparr>,
                    case res_json_fails e of
                      Some err \<Rightarrow> Inl err
                    | None \<Rightarrow>
                        Inr \<lparr>status = 200,
                             content = Json (transactionHash rcpt)
                               (''Success. Gas will be sent to '' @ toLowerCase s @
                                '' shortly.'')\<rparr>))))"
  using assms get_prop_truthy [OF assms(1)]
  by (simp add: retrieve_try_unfold lookups_return_def findOne_def)

lemma retrieve_rejected:
  assumes "get_prop (body req) ''walletAddress'' = JStr s"
    and "isAddress l (toLowerCase s)" and "lookups_return e (toLowerCase s) bal txCount"
    and "eligibility l (List.find (\<lambda>r. walletAddress r = toLowerCase s) (db w))
            (List.find (\<lambda>r. ipAddress r = ip_of req \<and> ONE_DAY l e \<le> lastVisit r) (db w))
            txCount bal = Some err"
  shows "retrieve l e req w = (w, \<lparr>status = 400, content = Text (message err)\<rparr>)"
  using retrieve_try_fetched [OF assms(1-3)] assms(4) by (simp add: retrieve_def)

lemma retrieve_invalid:
  assumes "get_prop (body req) ''walletAddress'' = JStr s"
    and "\<not> isAddress l (toLowerCase s)"
  shows "retrieve l e req w =
      (w, \<lparr>status = 400, content = Text ''Wallet address does not appear to be valid.''\<rparr>)"
  using assms get_prop_truthy [OF assms(1)] by (simp add: retrieve_def retrieve_try_unfold)

text \<open>A lookup that is rejected: the first one in the order of the \<^verbatim>\<open>await\<close>s decides.\<close>

lemma retrieve_lookup_rejected:
  assumes "get_prop (body req) ''walletAddress'' = JStr s"
    and "isAddress l (toLowerCase s)"
    and "findOne_wallet_fails e = Some err
         \<or> findOne_wallet_fails e = None \<and> findOne_ip_fails e = Some err
         \<or> findOne_wallet_fails e = None \<and> findOne_ip_fails e = None \<and>
            getBalance e (toLowerCase s) = Inl err
         \<or> findOne_wallet_fails e = None \<and> findOne_ip_fails e = None \<and>
            (\<exists>bal. getBalance e (toLowerCase s) = Inr bal) \<and>
            getTransactionCount e (toLowerCase s) = Inl err"
  shows "retrieve l e req w = (w, \<lparr>status = 400, content = Text (message err)\<rparr>)"
  using assms get_prop_truthy [OF assms(1)]
  by (auto simp: retrieve_def retrieve_try_unfold findOne_def)

lemma eligible:
  assumes "\<not> has_wallet_record docs wa" and "\<not> has_recent_ip_record docs ip c"
  shows "eligibility l (List.find (\<lambda>r. walletAddress r = wa) docs)
           (List.find (\<lambda>r. ipAddress r = ip \<and> c \<le> lastVisit r) docs) 0 0 = None"
  using assms by (simp add: eligibility_def find_wallet find_ip)

lemma payoutFSN_returns:
  assumes "payout_returns e addr faucet g gp rcpt"
  shows "payoutFSN e addr w = (w\<lparr>sent := sent w @ [payout_tx faucet addr g gp]\<rparr>, Inr rcpt)"
  using assms by (simp add: payoutFSN_def payout_returns_def payout_tx_def Let_def)

lemma payoutFSN_sent:
  "payoutFSN e addr w = (w1, res) \<Longrightarrow> db w1 = db w"
  by (auto simp: payoutFSN_def Let_def split: sum.splits option.splits prod.splits)

lemma payoutFSN_unchanged_or_sent:
  "payoutFSN e addr w = (w', res) \<Longrightarrow>
     (w' = w \<and> (\<exists>err. res = Inl err)) \<or>
     (\<exists>faucet g gp rcpt. payout_returns e addr faucet g gp rcpt \<and> res = Inr rcpt \<and>
        w' = w\<lparr>sent := sent w @ [payout_tx faucet addr g gp]\<rparr>)"
  by (auto simp: payoutFSN_def payout_returns_def payout_tx_def Let_def
      split: sum.splits option.splits prod.splits)

lemma payoutFSN_signing:
  assumes "privateKeyToAccount e = Inr faucet"
    and "buildSendAssetTx e (new_tx faucet addr) = Inr (g, gp)"
    and "signTransaction_fails e (payout_tx faucet addr g gp) = Some err
         \<or> sendSignedTransaction e (payout_tx faucet addr g gp) = Inl err"
  shows "payoutFSN e addr w = (w, Inl (Error ''Sending faucet gas failed: ''))"
  using assms
  by (auto simp: payoutFSN_def payout_tx_def Let_def split: option.splits)

lemma upsert_no_match:
  "\<forall>r \<in> set docs. \<not> flt r \<Longrightarrow> upsert flt doc docs = docs @ [doc]"
  by (induction docs) auto

lemma upsert_pair_fresh:
  assumes "\<not> has_wallet_record docs wa"
  shows "upsert (\<lambda>r. walletAddress r = wa \<and> ipAddress r = ip) doc docs = docs @ [doc]"
  using assms by (intro upsert_no_match) (auto simp: has_wallet_record_def)

text \<open>
  An eligible request that is handled alone, from the payout on: what it leaves and what
  it answers depends on the payout, the write and the writing of the response.
\<close>

lemma retrieve_try_eligible:
  assumes "get_prop (body req) ''walletAddress'' = JStr s"
    and "isAddress l (toLowerCase s)" and "lookups_return e (toLowerCase s) 0 0"
    and "\<not> has_wallet_record (db w) (toLowerCase s)"
    and "\<not> has_recent_ip_record (db w) (ip_of req) (ONE_DAY l e)"
  shows "retrieve_try l e req w =
    (case payoutFSN e (toLowerCase s) w of
       (w1, Inl err) \<Rightarrow> (w1, Inl err)
     | (w1, Inr rcpt) \<Rightarrow>
         (case updateOne_fails e of
            Some err \<Rightarrow> (w1, Inl err)
          | None \<Rightarrow>
              (w1\<lparr>db := db w @ [\<lparr>walletAddress = toLowerCase s, ipAddress = ip_of req,
                                   lastVisit = now_date e\<rparr>]\<rparr>,
               case res_json_fails e of
                 Some err \<Rightarrow> Inl err
               | None \<Rightarrow>
                   Inr \<lparr>status = 200,
                        content = Json (transactionHash rcpt)
                          (''Success. Gas will be sent to '' @ toLowerCase s @
                           '' shortly.'')\<rparr>)))"
proof -
  obtain w1 res where pay: "payoutFSN e (toLowerCase s) w = (w1, res)"
    by (cases "payoutFSN e (toLowerCase s) w")
  show ?thesis
    using retrieve_try_fetched [OF assms(1-3), of w] eligible [OF assms(4,5), of l]
      pay payoutFSN_sent [OF pay] upsert_pair_fresh [OF assms(4)]
    by (simp add: updateOne_def split: sum.splits option.splits)
qed

text \<open>Every answer is 200 or 400; the state changes only when every check has passed.\<close>

lemma retrieve_status:
  "status (snd (retrieve l e req w)) = 200 \<or> status (snd (retrieve l e req w)) = 400"
  by (auto simp: retrieve_def retrieve_try_unfold sendStatus400_def findOne_def updateOne_def
      split: sum.splits option.splits prod.splits)

lemma retrieve_effect_needs_eligible:
  assumes "get_prop (body req) ''walletAddress'' = JStr s"
    and "fst (retrieve l e req w) \<noteq> w \<or> status (snd (retrieve l e req w)) = 200"
  shows "isAddress l (toLowerCase s) \<and> lookups_return e (toLowerCase s) 0 0 \<and>
         \<not> has_wallet_record (db w) (toLowerCase s) \<and>
         \<not> has_recent_ip_record (db w) (ip_of req) (ONE_DAY l e)"
  using assms
  by (auto simp: retrieve_def retrieve_try_unfold sendStatus400_def findOne_def
      eligibility_def lookups_return_def find_wallet find_ip
      split: sum.splits option.splits prod.splits if_splits)

lemma retrieve_no_string:
  assumes "\<not> is_string (get_prop (body req) ''walletAddress'')"
  shows "fst (retrieve l e req w) = w \<and> status (snd (retrieve l e req w)) = 400"
proof -
  have "call_toLowerCase l (get_prop (body req) ''walletAddress'') =
      Inl (TypeError (type_error_text l (get_prop (body req) ''walletAddress'')))"
    using assms by (cases "get_prop (body req) ''walletAddress''") auto
  then show ?thesis
    by (simp add: retrieve_def retrieve_try_unfold sendStatus400_def)
qed

lemma no_check_fails_unchanged:
  assumes "get_prop (body req) ''walletAddress'' = JStr s"
    and "fails_a_check l e w (toLowerCase s) (ip_of req)"
  shows "fst (retrieve l e req w) = w \<and> status (snd (retrieve l e req w)) = 400"
proof -
  have "\<not> (isAddress l (toLowerCase s) \<and> lookups_return e (toLowerCase s) 0 0 \<and>
       \<not> has_wallet_record (db w) (toLowerCase s) \<and>
       \<not> has_recent_ip_record (db w) (ip_of req) (ONE_DAY l e))"
    using assms(2) by (auto simp: fails_a_check_def lookups_return_def)
  then have "\<not> (fst (retrieve l e req w) \<noteq> w \<or> status (snd (retrieve l e req w)) = 200)"
    using retrieve_effect_needs_eligible [OF assms(1)] by blast
  then show ?thesis
    using retrieve_status [of l e req w] by auto
qed

text \<open>A request that is handled alone is answered 200 only when every call has returned.\<close>

lemma retrieve_200_returns:
  assumes "get_prop (body req) ''walletAddress'' = JStr s"
    and "status (snd (retrieve l e req w)) = 200"
  shows "lookups_return e (toLowerCase s) 0 0 \<and>
         (\<exists>faucet g gp rcpt. payout_returns e (toLowerCase s) faucet g gp rcpt) \<and>
         updateOne_fails e = None \<and> res_json_fails e = None"
proof -
  have el: "isAddress l (toLowerCase s)" "lookups_return e (toLowerCase s) 0 0"
    "\<not> has_wallet_record (db w) (toLowerCase s)"
    "\<not> has_recent_ip_record (db w) (ip_of req) (ONE_DAY l e)"
    using retrieve_effect_needs_eligible [OF assms(1), of l e w] assms(2) by simp_all
  obtain w1 res where pay: "payoutFSN e (toLowerCase s) w = (w1, res)"
    by (cases "payoutFSN e (toLowerCase s) w")
  have "(\<exists>rcpt. res = Inr rcpt) \<and> updateOne_fails e = None \<and> res_json_fails e = None"
    using retrieve_try_eligible [OF assms(1) el] pay assms(2)
    by (auto simp: retrieve_def split: sum.splits option.splits)
  then show ?thesis
    using payoutFSN_unchanged_or_sent [OF pay] el(2) by auto
qed

subsection \<open>Steps of overlapping requests\<close>

text \<open>Only the write of the record changes the collection, by the upsert.\<close>

lemma step_db:
  "db (fst (step l e req st w)) = db w \<or>
   (\<exists>wa ip rcpt. st = AwaitWrite wa ip rcpt \<and> updateOne_fails e = None \<and>
      db (fst (step l e req st w)) =
        upsert (\<lambda>r. walletAddress r = wa \<and> ipAddress r = ip)
          \<lparr>walletAddress = wa, ipAddress = ip, lastVisit = now_date e\<rparr> (db w))"
proof (cases st)
  case (AwaitPayout wa ip)
  obtain w1 res where pay: "payoutFSN e wa w = (w1, res)"
    by (cases "payoutFSN e wa w")
  then show ?thesis
    using AwaitPayout payoutFSN_sent [OF pay] by (auto split: sum.splits)
next
  case (AwaitWrite wa ip rcpt)
  then show ?thesis
    by (cases "updateOne_fails e") (auto simp: updateOne_def)
qed auto

lemma records_of_Cons:
  "records_of (r # docs) k = (if pair_of r = k then 1 else 0) + records_of docs k"
  by (simp add: records_of_def)

lemma records_of_append:
  "records_of (docs @ [r]) k = records_of docs k + (if pair_of r = k then 1 else 0)"
  by (simp add: records_of_def)

lemma records_of_fresh: "\<not> has_wallet_record docs wa \<Longrightarrow> records_of docs (wa, ip) = 0"
  by (auto simp: records_of_def has_wallet_record_def pair_of_def)

lemma records_of_0: "records_of docs k = 0 \<longleftrightarrow> (\<forall>r \<in> set docs. pair_of r \<noteq> k)"
  by (auto simp: records_of_def filter_empty_conv)

text \<open>The upsert of a pair: one record more when the pair has none, no record more otherwise.\<close>

lemma upsert_records_of:
  "records_of (upsert (\<lambda>r. walletAddress r = wa \<and> ipAddress r = ip)
       \<lparr>walletAddress = wa, ipAddress = ip, lastVisit = t\<rparr> docs) k =
     (if k = (wa, ip) \<and> records_of docs k = 0 then 1 else records_of docs k)"
  by (induction docs) (auto simp: records_of_Cons pair_of_def records_of_def)

lemma upsert_absent:
  assumes "records_of docs (wa, ip) = 0"
  shows "upsert (\<lambda>r. walletAddress r = wa \<and> ipAddress r = ip) doc docs = docs @ [doc]"
  using assms by (intro upsert_no_match) (auto simp: records_of_0 pair_of_def)

lemma upsert_present:
  assumes "records_of docs (wa, ip) = 1"
  shows "upsert (\<lambda>r. walletAddress r = wa \<and> ipAddress r = ip)
           \<lparr>walletAddress = wa, ipAddress = ip, lastVisit = t\<rparr> docs =
         map (\<lambda>r. if pair_of r = (wa, ip) then r\<lparr>lastVisit := t\<rparr> else r) docs"
  using assms
proof (induction docs)
  case Nil
  then show ?case by (simp add: records_of_def)
next
  case (Cons r docs)
  show ?case
  proof (cases "pair_of r = (wa, ip)")
    case True
    then have none: "records_of docs (wa, ip) = 0"
      using Cons.prems by (simp add: records_of_Cons)
    then have "map (\<lambda>r. if pair_of r = (wa, ip) then r\<lparr>lastVisit := t\<rparr> else r) docs = docs"
      by (intro map_idI) (auto simp: records_of_0)
    then show ?thesis
      using True by (cases r) (simp add: pair_of_def)
  next
    case False
    then have "records_of docs (wa, ip) = 1"
      using Cons.prems by (simp add: records_of_Cons)
    then show ?thesis
      using False Cons.IH by (auto simp: pair_of_def)
  qed
qed

lemma upsert_pairs_kept:
  "set (map pair_of docs)
     \<subseteq> set (map pair_of (upsert (\<lambda>r. walletAddress r = wa \<and> ipAddress r = ip)
            \<lparr>walletAddress = wa, ipAddress = ip, lastVisit = t\<rparr> docs))"
  by (induction docs) (auto simp: pair_of_def)

lemma upsert_length:
  "length docs \<le> length (upsert flt doc docs)"
  by (induction docs) auto

text \<open>At most one record for each pair: kept by every step, so by every schedule.\<close>

lemma step_at_most_one:
  assumes "\<forall>k. records_of (db w) k \<le> 1"
  shows "records_of (db (fst (step l e req st w))) k \<le> 1"
  using step_db [of l e req st w] assms [rule_format, of k]
  by (auto simp: upsert_records_of)

lemma step_pairs_kept:
  "set (map pair_of (db w)) \<subseteq> set (map pair_of (db (fst (step l e req st w))))"
  using step_db [of l e req st w] upsert_pairs_kept by fastforce

lemma advance_at_most_one:
  assumes "\<forall>k. records_of (db (snd pw)) k \<le> 1"
  shows "records_of (db (snd (advance l i pw))) k \<le> 1"
proof -
  obtain pool w where pw: "pw = (pool, w)" by (cases pw)
  show ?thesis
  proof (cases "i < length pool")
    case False
    then show ?thesis
      using assms [rule_format, of k] pw by (simp add: advance_def)
  next
    case True
    obtain e req st where t: "pool ! i = (e, req, st)" by (cases "pool ! i")
    have "snd (advance l i pw) = fst (step l e req st w)"
      using True pw t by (simp add: advance_def split: prod.splits)
    then show ?thesis
      using step_at_most_one [where w = w and k = k and l = l and e = e and req = req and st = st]
        assms pw by simp
  qed
qed

lemma interleave_at_most_one:
  "\<forall>k. records_of (db (snd pw)) k \<le> 1 \<Longrightarrow>
     records_of (db (snd (interleave l sched pw))) k \<le> 1"
proof (induction sched arbitrary: pw k)
  case Nil
  then show ?case using Nil [rule_format, of k] by simp
next
  case (Cons i sched)
  have "\<forall>k. records_of (db (snd (advance l i pw))) k \<le> 1"
    using advance_at_most_one [OF Cons.prems] by blast
  then show ?case
    using Cons.IH by simp
qed

text \<open>
  A record of an IP that is not older than a cutoff stays so, as long as every write is
  stamped at or after the cutoff.
\<close>

lemma upsert_recent:
  assumes "has_recent_ip_record docs ip' c" and "c \<le> t"
  shows "has_recent_ip_record
           (upsert (\<lambda>r. walletAddress r = wa \<and> ipAddress r = ip)
              \<lparr>walletAddress = wa, ipAddress = ip, lastVisit = t\<rparr> docs) ip' c"
  using assms by (induction docs) (auto simp: has_recent_ip_record_def)

lemma step_recent:
  assumes "has_recent_ip_record (db w) ip c" and "c \<le> now_date e"
  shows "has_recent_ip_record (db (fst (step l e req st w))) ip c"
  using step_db [of l e req st w] assms upsert_recent by fastforce

lemma advance_envs: "map fst (fst (advance l i pw)) = map fst (fst pw)"
proof -
  obtain pool w where pw: "pw = (pool, w)" by (cases pw)
  show ?thesis
  proof (cases "i < length pool")
    case False
    then show ?thesis using pw by (simp add: advance_def)
  next
    case True
    obtain e req st where t: "pool ! i = (e, req, st)" by (cases "pool ! i")
    have "(map fst pool)[i := e] = map fst pool"
      using True t by (intro list_update_same_conv [THEN iffD2]) simp_all
    then show ?thesis
      using True pw t by (simp add: advance_def map_update split: prod.splits)
  qed
qed

lemma advance_recent:
  assumes "has_recent_ip_record (db (snd pw)) ip c"
    and "\<forall>env \<in> set (map fst (fst pw)). c \<le> now_date env"
  shows "has_recent_ip_record (db (snd (advance l i pw))) ip c"
proof -
  obtain pool w where pw: "pw = (pool, w)" by (cases pw)
  show ?thesis
  proof (cases "i < length pool")
    case False
    then show ?thesis
      using assms(1) pw by (simp add: advance_def)
  next
    case True
    obtain e req st where t: "pool ! i = (e, req, st)" by (cases "pool ! i")
    have "e \<in> set (map fst pool)"
      using True t by (metis fst_conv nth_map nth_mem length_map)
    then have "c \<le> now_date e"
      using assms(2) pw by auto
    moreover have "snd (advance l i pw) = fst (step l e req st w)"
      using True pw t by (simp add: advance_def split: prod.splits)
    ultimately show ?thesis
      using step_recent [of w ip c e l req st] assms(1) pw by simp
  qed
qed

lemma interleave_recent:
  "has_recent_ip_record (db (snd pw)) ip c \<Longrightarrow>
   \<forall>env \<in> set (map fst (fst pw)). c \<le> now_date env \<Longrightarrow>
     has_recent_ip_record (db (snd (interleave l sched pw))) ip c"
proof (induction sched arbitrary: pw)
  case Nil
  then show ?case by simp
next
  case (Cons i sched)
  show ?case
    using Cons.IH [of "advance l i pw"] advance_recent [OF Cons.prems, of l i]
      Cons.prems(2) advance_envs [of l i pw]
    by simp
qed

text \<open>An eligible request that is handled alone, when every call returns.\<close>

lemma retrieve_paid:
  assumes "get_prop (body req) ''walletAddress'' = JStr s"
    and "isAddress l (toLowerCase s)" and "lookups_return e (toLowerCase s) 0 0"
    and "\<not> has_wallet_record (db w) (toLowerCase s)"
    and "\<not> has_recent_ip_record (db w) (ip_of req) (ONE_DAY l e)"
    and "payout_returns e (toLowerCase s) faucet g gp rcpt"
    and "updateOne_fails e = None" and "res_json_fails e = None"
  shows "retrieve l e req w =
           (\<lparr>db = db w @ [\<lparr>walletAddress = toLowerCase s, ipAddress = ip_of req,
                            lastVisit = now_date e\<rparr>],
             sent = sent w @ [payout_tx faucet (toLowerCase s) g gp]\<rparr>,
            \<lparr>status = 200,
             content = Json (transactionHash rcpt)
               (''Success. Gas will be sent to '' @ toLowerCase s @ '' shortly.'')\<rparr>)"
  using retrieve_try_eligible [OF assms(1-5)] payoutFSN_returns [OF assms(6), of w] assms(7,8)
  by (simp add: retrieve_def)

lemma retrieve_200_db:
  assumes "status (snd (retrieve l e req w)) = 200"
  shows "\<exists>wa. \<not> has_wallet_record (db w) wa \<and>
           db (fst (retrieve l e req w)) =
             db w @ [\<lparr>walletAddress = wa, ipAddress = ip_of req, lastVisit = now_date e\<rparr>]"
proof -
  have "is_string (get_prop (body req) ''walletAddress'')"
  proof (rule ccontr)
    assume "\<not> is_string (get_prop (body req) ''walletAddress'')"
    from retrieve_no_string [OF this, of l e w] assms show False by auto
  qed
  then obtain s where str: "get_prop (body req) ''walletAddress'' = JStr s"
    by (cases "get_prop (body req) ''walletAddress''") auto
  have el: "isAddress l (toLowerCase s)" "lookups_return e (toLowerCase s) 0 0"
    "\<not> has_wallet_record (db w) (toLowerCase s)"
    "\<not> has_recent_ip_record (db w) (ip_of req) (ONE_DAY l e)"
    using retrieve_effect_needs_eligible [OF str, of l e w] assms by simp_all
  obtain faucet g gp rcpt where
    "payout_returns e (toLowerCase s) faucet g gp rcpt"
    "updateOne_fails e = None" "res_json_fails e = None"
    using retrieve_200_returns [OF str assms] by blast
  from retrieve_paid [OF str el this] show ?thesis
    using el(3) by auto
qed

subsection \<open>Facts about the concrete requests\<close>

lemma lower_addrA: "toLowerCase addrA_mixed = addrA"
  by (simp add: toLowerCase_def lower_char_def addrA_mixed_def addrA_def)

lemma lower_addrA_id: "toLowerCase addrA = addrA"
  by (simp add: toLowerCase_def lower_char_def addrA_def)

lemma lower_addrB_id: "toLowerCase addrB = addrB"
  by (simp add: toLowerCase_def lower_char_def addrB_def)

lemma valid_addrA: "isAddress lib0 addrA" "isAddress lib_short_day addrA" "isAddress lib_long_day addrA"
  by (simp_all add: lib0_def lib_short_day_def lib_long_day_def isAddress_lower_def
      is_hex_digit_def addrA_def)

lemma valid_addrB: "isAddress lib0 addrB" "isAddress lib_short_day addrB" "isAddress lib_long_day addrB"
  by (simp_all add: lib0_def lib_short_day_def lib_long_day_def isAddress_lower_def
      is_hex_digit_def addrB_def)

lemma invalid_word: "\<not> isAddress lib0 (toLowerCase ''0xnot-an-address'')"
  by (simp add: lib0_def isAddress_lower_def toLowerCase_def lower_char_def)

lemma post_wallet:
  "truthy (body (post (wallet_body s) ip))"
  "get_prop (body (post (wallet_body s) ip)) ''walletAddress'' = JStr s"
  "ip_of (post b ip) = ip"
  by (simp_all add: post_def wallet_body_def ip_of_def)

lemma addrA_neq_addrB: "addrA \<noteq> addrB"
  by (simp add: addrA_def addrB_def)

lemma ip1_neq_ip2: "ip1 \<noteq> ip2"
  by (simp add: ip1_def ip2_def)

lemma day_lengths:
  "ONE_DAY lib0 e = now_moment e - 86400000"
  "ONE_DAY lib_short_day e = now_moment e - 82800000"
  "ONE_DAY lib_long_day e = now_moment e - 90000000"
  by (simp_all add: ONE_DAY_def lib0_def lib_short_day_def lib_long_day_def)

lemma show_bal_lib0: "show_bal lib0 n = ''2e-9''"
  by (simp add: lib0_def)

lemma clocks:
  "now_moment env_ok = 1700000000000" "now_date env_ok = 1700000000050"
  "now_moment env_later = 1700003600000" "now_date env_later = 1700003600050"
  "now_moment env_23h30 = 1700084600050" "now_date env_23h30 = 1700084600100"
  "now_moment env_24h30 = 1700088200050" "now_date env_24h30 = 1700088200100"
  "now_moment env_used = 1700000000000" "now_moment env_funded = 1700000000000"
  "now_moment env_write_fails = 1700000000000" "now_moment env_json_fails = 1700000000000"
  "now_moment env_send_fails = 1700000000000" "now_moment env_sign_fails = 1700000000000"
  "now_moment env_soon = 1700000000200" "now_date env_soon = 1700000000250"
  by (simp_all add: env_ok_def env_later_def env_23h30_def env_24h30_def env_used_def
      env_funded_def env_write_fails_def env_json_fails_def env_send_fails_def
      env_sign_fails_def env_soon_def)

lemma world1_facts:
  "has_wallet_record (db world1) addrA"
  "\<not> has_wallet_record (db world1) addrB"
  "has_recent_ip_record (db world1) ip1 c = (c \<le> 1700000000050)"
  "\<not> has_recent_ip_record (db world1) ip2 c"
  by (simp_all add: has_wallet_record_def has_recent_ip_record_def world1_def
      addrA_neq_addrB ip1_neq_ip2)

lemma world0_facts:
  "\<not> has_wallet_record (db world0) a" "\<not> has_recent_ip_record (db world0) i c"
  by (simp_all add: has_wallet_record_def has_recent_ip_record_def world0_def)

lemma returns:
  "lookups_return env_ok a 0 0" "lookups_return env_later a 0 0"
  "lookups_return env_23h30 a 0 0" "lookups_return env_24h30 a 0 0"
  "lookups_return env_write_fails a 0 0" "lookups_return env_json_fails a 0 0"
  "lookups_return env_send_fails a 0 0" "lookups_return env_sign_fails a 0 0"
  "lookups_return env_used a 2000000000 3" "lookups_return env_funded a 2000000000 0"
  "lookups_return env_soon a 0 0"
  by (simp_all add: lookups_return_def env_ok_def env_later_def env_23h30_def env_24h30_def
      env_write_fails_def env_json_fails_def env_send_fails_def env_sign_fails_def
      env_used_def env_funded_def env_soon_def)

lemma pays:
  "payout_returns env_ok a faucet0 21000 1000000000 rcpt0"
  "payout_returns env_later a faucet0 21000 1000000000 rcpt0"
  "payout_returns env_23h30 a faucet0 21000 1000000000 rcpt0"
  "payout_returns env_write_fails a faucet0 21000 1000000000 rcpt0"
  "payout_returns env_json_fails a faucet0 21000 1000000000 rcpt0"
  "payout_returns env_soon a faucet0 21000 1000000000 rcpt0"
  by (simp_all add: payout_returns_def env_ok_def env_later_def env_23h30_def
      env_write_fails_def env_json_fails_def env_soon_def)

lemma writes:
  "updateOne_fails env_ok = None" "res_json_fails env_ok = None"
  "updateOne_fails env_later = None" "res_json_fails env_later = None"
  "updateOne_fails env_23h30 = None" "res_json_fails env_23h30 = None"
  "updateOne_fails env_write_fails = Some (Error ''buffering timed out'')"
  "updateOne_fails env_json_fails = None"
  "res_json_fails env_json_fails = Some (Error ''write after end'')"
  "updateOne_fails env_soon = None" "res_json_fails env_soon = None"
  by (simp_all add: env_ok_def env_later_def env_23h30_def env_write_fails_def
      env_json_fails_def env_soon_def)

lemma first_run:
  "retrieve lib0 env_ok (post (wallet_body addrA) ip1) world0 =
     (world1, \<lparr>status = 200,
               content = Json ''0xabc''
                 (''Success. Gas will be sent to '' @ addrA @ '' shortly.'')\<rparr>)"
proof -
  have v: "isAddress lib0 (toLowerCase addrA)"
    by (simp add: lower_addrA_id valid_addrA)
  from retrieve_paid [OF post_wallet(2) v returns(1) world0_facts(1) world0_facts(2) pays(1)
      writes(1) writes(2)]
  show ?thesis
    by (simp add: lower_addrA_id post_wallet(3) clocks world0_def world1_def rcpt0_def)
qed

text \<open>Two overlapping requests for one pair: both are paid, and there is one record.\<close>

lemma twice_in_turn:
  "interleave lib0 in_turn (twice, world0) =
     ([(env_ok, post (wallet_body addrA) ip1,
        Finished (Inr \<lparr>status = 200,
                       content = Json ''0xabc''
                         (''Success. Gas will be sent to '' @ addrA @ '' shortly.'')\<rparr>)),
       (env_soon, post (wallet_body addrA) ip1,
        Finished (Inr \<lparr>status = 200,
                       content = Json ''0xabc''
                         (''Success. Gas will be sent to '' @ addrA @ '' shortly.'')\<rparr>))],
      \<lparr>db = [\<lparr>walletAddress = addrA, ipAddress = ip1, lastVisit = 1700000000250\<rparr>],
       sent = [payout_tx faucet0 addrA 21000 1000000000,
               payout_tx faucet0 addrA 21000 1000000000]\<rparr>)"
proof -
  have pay: "payoutFSN env_ok addrA w =
      (w\<lparr>sent := sent w @ [payout_tx faucet0 addrA 21000 1000000000]\<rparr>, Inr rcpt0)"
    "payoutFSN env_soon addrA w =
      (w\<lparr>sent := sent w @ [payout_tx faucet0 addrA 21000 1000000000]\<rparr>, Inr rcpt0)" for w
    by (rule payoutFSN_returns, rule pays)+
  have ok: "eligibility lib0 None None 0 0 = None"
    by (simp add: eligibility_def)
  have look: "findOne_wallet_fails env_ok = None" "findOne_ip_fails env_ok = None"
    "getBalance env_ok addrA = Inr 0" "getTransactionCount env_ok addrA = Inr 0"
    "findOne_wallet_fails env_soon = None" "findOne_ip_fails env_soon = None"
    "getBalance env_soon addrA = Inr 0" "getTransactionCount env_soon addrA = Inr 0"
    using returns(1,11) [of addrA] by (simp_all add: lookups_return_def)
  show ?thesis
    by (simp add: in_turn_def twice_def advance_def post_wallet lower_addrA_id valid_addrA
        findOne_def updateOne_def look ok pay writes clocks world0_def rcpt0_def)
qed

subsection \<open>The first claim of a fresh address\<close>

text \<open>
  C1, amended. A request that is handled with no step of another request in between,
  whose wallet address is valid and has no claim record, whose IP has no claim record at
  or after the cutoff (the clock less one calendar day of the server's time zone), and
  whose transaction count and balance are both returned as zero. If the two database
  lookups, every call of the payout, the write of the record and the writing of the
  response return, the handler sends exactly one transaction, of the fixed amount to
  that address, answers 200 with the transaction hash and a status text, and adds exactly
  one record, the only one of the pair (walletAddress, ipAddress). If one of these calls
  is rejected the answer is 400.
\<close>

theorem first_claim_pays_once:
  assumes "get_prop (body req) ''walletAddress'' = JStr s"
    and "isAddress l (toLowerCase s)"
    and "\<not> has_wallet_record (db w) (toLowerCase s)"
    and "\<not> has_recent_ip_record (db w) (ip_of req) (ONE_DAY l e)"
    and "getBalance e (toLowerCase s) = Inr 0"
    and "getTransactionCount e (toLowerCase s) = Inr 0"
  shows "(findOne_wallet_fails e = None \<and> findOne_ip_fails e = None \<and>
          payout_returns e (toLowerCase s) faucet g gp rcpt \<and>
          updateOne_fails e = None \<and> res_json_fails e = None \<longrightarrow>
            retrieve l e req w =
              (\<lparr>db = db w @ [\<lparr>walletAddress = toLowerCase s, ipAddress = ip_of req,
                               lastVisit = now_date e\<rparr>],
                sent = sent w @ [payout_tx faucet (toLowerCase s) g gp]\<rparr>,
               \<lparr>status = 200,
                content = Json (transactionHash rcpt)
                  (''Success. Gas will be sent to '' @ toLowerCase s @ '' shortly.'')\<rparr>)
            \<and> records_of (db (fst (retrieve l e req w))) (toLowerCase s, ip_of req) = 1
            \<and> to_addr (payout_tx faucet (toLowerCase s) g gp) = toLowerCase s
            \<and> amount (payout_tx faucet (toLowerCase s) g gp) = 2000000000)
       \<and> (status (snd (retrieve l e req w)) = 200 \<or> status (snd (retrieve l e req w)) = 400)
       \<and> (status (snd (retrieve l e req w)) = 200 \<longrightarrow>
            findOne_wallet_fails e = None \<and> findOne_ip_fails e = None \<and>
            (\<exists>f' g' gp' rcpt'. payout_returns e (toLowerCase s) f' g' gp' rcpt') \<and>
            updateOne_fails e = None \<and> res_json_fails e = None)"
proof -
  have paid: "retrieve l e req w =
        (\<lparr>db = db w @ [\<lparr>walletAddress = toLowerCase s, ipAddress = ip_of req,
                         lastVisit = now_date e\<rparr>],
          sent = sent w @ [payout_tx faucet (toLowerCase s) g gp]\<rparr>,
         \<lparr>status = 200,
          content = Json (transactionHash rcpt)
            (''Success. Gas will be sent to '' @ toLowerCase s @ '' shortly.'')\<rparr>)
      \<and> records_of (db (fst (retrieve l e req w))) (toLowerCase s, ip_of req) = 1
      \<and> to_addr (payout_tx faucet (toLowerCase s) g gp) = toLowerCase s
      \<and> amount (payout_tx faucet (toLowerCase s) g gp) = 2000000000"
    if "findOne_wallet_fails e = None" and "findOne_ip_fails e = None"
      and "payout_returns e (toLowerCase s) faucet g gp rcpt"
      and "updateOne_fails e = None" and "res_json_fails e = None"
  proof -
    have lk: "lookups_return e (toLowerCase s) 0 0"
      using that(1,2) assms(5,6) by (simp add: lookups_return_def)
    note run = retrieve_paid [OF assms(1,2) lk assms(3,4) that(3-5)]
    show ?thesis
      using run records_of_fresh [OF assms(3), of "ip_of req"]
      by (simp add: records_of_append pair_of_def payout_tx_def new_tx_def payout_wei_def)
  qed
  have only: "findOne_wallet_fails e = None \<and> findOne_ip_fails e = None \<and>
      (\<exists>f' g' gp' rcpt'. payout_returns e (toLowerCase s) f' g' gp' rcpt') \<and>
      updateOne_fails e = None \<and> res_json_fails e = None"
    if "status (snd (retrieve l e req w)) = 200"
    using retrieve_200_returns [OF assms(1) that] by (auto simp: lookups_return_def)
  show ?thesis
    using paid only retrieve_status [of l e req w] by blast
qed

theorem first_claim_pays_once_witness:
  "retrieve lib0 env_ok (post (wallet_body addrA_mixed) ip1) world0 =
     (world1, \<lparr>status = 200,
           content = Json ''0xabc''
             (''Success. Gas will be sent to '' @ addrA @ '' shortly.'')\<rparr>)
   \<and> records_of (db world1) (addrA, ip1) = 1
   \<and> length (sent world1) = 1
   \<and> amount (payout_tx faucet0 addrA 21000 1000000000) = 2000000000"
proof -
  let ?req = "post (wallet_body addrA_mixed) ip1"
  have h2: "isAddress lib0 (toLowerCase addrA_mixed)"
    by (simp add: lower_addrA valid_addrA)
  have h5: "getBalance env_ok (toLowerCase addrA_mixed) = Inr 0"
    and h6: "getTransactionCount env_ok (toLowerCase addrA_mixed) = Inr 0"
    and lookups: "findOne_wallet_fails env_ok = None" "findOne_ip_fails env_ok = None"
    using returns(1) by (simp_all add: lookups_return_def)
  from first_claim_pays_once [OF post_wallet(2) h2 world0_facts(1) world0_facts(2) h5 h6,
      where faucet = faucet0 and g = 21000 and gp = 1000000000 and rcpt = rcpt0]
  have "retrieve lib0 env_ok ?req world0 =
           (\<lparr>db = db world0 @ [\<lparr>walletAddress = toLowerCase addrA_mixed, ipAddress = ip_of ?req,
                            lastVisit = now_date env_ok\<rparr>],
             sent = sent world0 @ [payout_tx faucet0 (toLowerCase addrA_mixed) 21000 1000000000]\<rparr>,
            \<lparr>status = 200,
             content = Json (transactionHash rcpt0)
               (''Success. Gas will be sent to '' @ toLowerCase addrA_mixed @ '' shortly.'')\<rparr>)"
    and "amount (payout_tx faucet0 (toLowerCase addrA_mixed) 21000 1000000000) = 2000000000"
    using lookups pays(1) writes(1,2) by simp_all
  then show ?thesis
    by (simp add: lower_addrA post_wallet world0_def world1_def clocks rcpt0_def records_of_def
        pair_of_def)
qed

text \<open>
  As stated, C1 fails in three ways. The broadcast can be rejected: the answer is 400 and
  nothing is sent or written. On a server whose calendar day before the clock is 25
  hours long, a record of the IP that is 24 and a half hours old is within the cutoff:
  the answer is the IP's 400. And of two overlapping requests for one address from one
  IP, both of which find no record and are answered 200, the second only replaces the
  record of the first.
\<close>

theorem first_claim_counterexample:
  "isAddress lib0 (toLowerCase addrA_mixed)
   \<and> \<not> has_wallet_record (db world0) (toLowerCase addrA_mixed)
   \<and> \<not> has_recent_ip_record (db world0) ip1 (now_moment env_send_fails - 24 * 60 * 60 * 1000)
   \<and> getTransactionCount env_send_fails (toLowerCase addrA_mixed) = Inr 0
   \<and> getBalance env_send_fails (toLowerCase addrA_mixed) = Inr 0
   \<and> retrieve lib0 env_send_fails (post (wallet_body addrA_mixed) ip1) world0 =
       (world0, \<lparr>status = 400, content = Text ''Sending faucet gas failed: ''\<rparr>)
   \<and> isAddress lib_long_day (toLowerCase addrB)
   \<and> \<not> has_wallet_record (db world1) (toLowerCase addrB)
   \<and> \<not> has_recent_ip_record (db world1) ip1 (now_moment env_24h30 - 24 * 60 * 60 * 1000)
   \<and> getTransactionCount env_24h30 (toLowerCase addrB) = Inr 0
   \<and> getBalance env_24h30 (toLowerCase addrB) = Inr 0
   \<and> retrieve lib_long_day env_24h30 (post (wallet_body addrB) ip1) world1 =
       (world1, \<lparr>status = 400,
                 content = Text ''Your IP has already claimed gas for an address recently.''\<rparr>)
   \<and> db (snd (interleave lib0 (take 8 in_turn) (twice, world0))) = []
   \<and> map (snd \<circ> snd) (fst (interleave lib0 in_turn (twice, world0))) =
       [Finished (Inr \<lparr>status = 200,
                       content = Json ''0xabc''
                         (''Success. Gas will be sent to '' @ addrA @ '' shortly.'')\<rparr>),
        Finished (Inr \<lparr>status = 200,
                       content = Json ''0xabc''
                         (''Success. Gas will be sent to '' @ addrA @ '' shortly.'')\<rparr>)]
   \<and> length (db (snd (interleave lib0 in_turn (twice, world0)))) = 1
   \<and> length (sent (snd (interleave lib0 in_turn (twice, world0)))) = 2"
proof -
  have a1: "isAddress lib0 (toLowerCase addrA_mixed)"
    by (simp add: lower_addrA valid_addrA)
  have a5: "getTransactionCount env_send_fails (toLowerCase addrA_mixed) = Inr 0"
    "getBalance env_send_fails (toLowerCase addrA_mixed) = Inr 0"
    using returns(7) by (simp_all add: lookups_return_def)
  have pay: "payoutFSN env_send_fails (toLowerCase addrA_mixed) world0 =
      (world0, Inl (Error ''Sending faucet gas failed: ''))"
    by (simp add: payoutFSN_def env_send_fails_def env_ok_def Let_def)
  have a6: "retrieve lib0 env_send_fails (post (wallet_body addrA_mixed) ip1) world0 =
       (world0, \<lparr>status = 400, content = Text ''Sending faucet gas failed: ''\<rparr>)"
    using retrieve_try_eligible [OF post_wallet(2) a1 returns(7) world0_facts(1)
        world0_facts(2), of ip1] pay
    by (simp add: retrieve_def)
  have b1: "isAddress lib_long_day (toLowerCase addrB)"
    by (simp add: lower_addrB_id valid_addrB)
  have b2: "\<not> has_wallet_record (db world1) (toLowerCase addrB)"
    by (simp add: lower_addrB_id world1_facts)
  have b3: "\<not> has_recent_ip_record (db world1) ip1 (now_moment env_24h30 - 24 * 60 * 60 * 1000)"
    by (simp add: world1_facts clocks)
  have b5: "getTransactionCount env_24h30 (toLowerCase addrB) = Inr 0"
    "getBalance env_24h30 (toLowerCase addrB) = Inr 0"
    using returns(4) by (simp_all add: lookups_return_def)
  have b6: "retrieve lib_long_day env_24h30 (post (wallet_body addrB) ip1) world1 =
       (world1, \<lparr>status = 400,
                 content = Text ''Your IP has already claimed gas for an address recently.''\<rparr>)"
    using retrieve_rejected [where w = world1
          and err = "Error ''Your IP has already claimed gas for an address recently.''",
        OF post_wallet(2) b1 returns(4), of ip1] b2
    by (simp add: eligibility_def find_wallet find_ip post_wallet(3) world1_facts
        day_lengths clocks)
  have c0: "db (snd (interleave lib0 (take 8 in_turn) (twice, world0))) = []"
    using returns(1,11) [of addrA]
    by (simp add: in_turn_def twice_def advance_def post_wallet lower_addrA_id valid_addrA
        findOne_def lookups_return_def world0_def)
  have c: "map (snd \<circ> snd) (fst (interleave lib0 in_turn (twice, world0))) =
       [Finished (Inr \<lparr>status = 200,
                       content = Json ''0xabc''
                         (''Success. Gas will be sent to '' @ addrA @ '' shortly.'')\<rparr>),
        Finished (Inr \<lparr>status = 200,
                       content = Json ''0xabc''
                         (''Success. Gas will be sent to '' @ addrA @ '' shortly.'')\<rparr>)]"
    "length (db (snd (interleave lib0 in_turn (twice, world0)))) = 1"
    "length (sent (snd (interleave lib0 in_turn (twice, world0)))) = 2"
    by (simp_all add: twice_in_turn)
  have a3: "\<not> has_recent_ip_record (db world0) ip1
      (now_moment env_send_fails - 24 * 60 * 60 * 1000)"
    by (rule world0_facts)
  show ?thesis
    using a1 world0_facts(1) [of "toLowerCase addrA_mixed"] a3 a5 a6 b1 b2 b3 b5 b6 c0 c
    by (intro conjI)
qed

subsection \<open>The order of the eligibility checks\<close>

text \<open>
  On the day that is 23 hours long, a fresh address is paid from an IP whose record is 23
  and a half hours old.
\<close>

lemma short_day_run:
  "retrieve lib_short_day env_23h30 (post (wallet_body addrB) ip1) world1 =
     (\<lparr>db = db world1 @ [\<lparr>walletAddress = addrB, ipAddress = ip1, lastVisit = 1700084600100\<rparr>],
       sent = sent world1 @ [payout_tx faucet0 addrB 21000 1000000000]\<rparr>,
      \<lparr>status = 200,
       content = Json ''0xabc'' (''Success. Gas will be sent to '' @ addrB @ '' shortly.'')\<rparr>)"
proof -
  have v: "isAddress lib_short_day (toLowerCase addrB)"
    by (simp add: lower_addrB_id valid_addrB)
  have nw: "\<not> has_wallet_record (db world1) (toLowerCase addrB)"
    by (simp add: lower_addrB_id world1_facts)
  have ni: "\<not> has_recent_ip_record (db world1) (ip_of (post (wallet_body addrB) ip1))
      (ONE_DAY lib_short_day env_23h30)"
    by (simp add: post_wallet(3) world1_facts day_lengths clocks)
  from retrieve_paid [OF post_wallet(2) v returns(3) nw ni pays(3) writes(5) writes(6)]
  show ?thesis
    by (simp add: lower_addrB_id post_wallet(3) clocks rcpt0_def)
qed

text \<open>
  C2, amended. For a request that carries a wallet address string: a malformed address is
  rejected first, whatever the lookups would give. Once the four lookups have returned,
  the first failing check in the order wallet record, IP record at or after the cutoff
  (the clock less one calendar day of the server's time zone), transaction count, balance
  gives the rejection, whatever the later checks would give. For a well-formed address,
  the first lookup that is rejected, in the order wallet record, IP record, balance,
  transaction count, gives the rejection instead of any check's error. Whenever one of
  the five checks fails the answer is 400 and the state is unchanged: no payout.
\<close>

theorem eligibility_priority:
  assumes "get_prop (body req) ''walletAddress'' = JStr s"
  shows "(\<not> isAddress l (toLowerCase s) \<longrightarrow>
            retrieve l e req w =
              (w, \<lparr>status = 400, content = Text ''Wallet address does not appear to be valid.''\<rparr>))
       \<and> (isAddress l (toLowerCase s) \<and> lookups_return e (toLowerCase s) bal txCount \<longrightarrow>
           (has_wallet_record (db w) (toLowerCase s) \<longrightarrow>
              retrieve l e req w =
                (w, \<lparr>status = 400, content = Text ''Address has already claimed gas.''\<rparr>))
         \<and> (\<not> has_wallet_record (db w) (toLowerCase s) \<and>
              has_recent_ip_record (db w) (ip_of req) (ONE_DAY l e) \<longrightarrow>
              retrieve l e req w =
                (w, \<lparr>status = 400,
                     content = Text ''Your IP has already claimed gas for an address recently.''\<rparr>))
         \<and> (\<not> has_wallet_record (db w) (toLowerCase s) \<and>
              \<not> has_recent_ip_record (db w) (ip_of req) (ONE_DAY l e) \<and> txCount \<noteq> 0 \<longrightarrow>
              retrieve l e req w =
                (w, \<lparr>status = 400, content = Text ''Must be a new, unused address.''\<rparr>))
         \<and> (\<not> has_wallet_record (db w) (toLowerCase s) \<and>
              \<not> has_recent_ip_record (db w) (ip_of req) (ONE_DAY l e) \<and> txCount = 0 \<and> bal \<noteq> 0 \<longrightarrow>
              retrieve l e req w =
                (w, \<lparr>status = 400,
                     content = Text (''Address has a non-zero balance: '' @ show_bal l bal)\<rparr>)))
       \<and> (isAddress l (toLowerCase s) \<and>
           (findOne_wallet_fails e = Some err
            \<or> findOne_wallet_fails e = None \<and> findOne_ip_fails e = Some err
            \<or> findOne_wallet_fails e = None \<and> findOne_ip_fails e = None \<and>
               getBalance e (toLowerCase s) = Inl err
            \<or> findOne_wallet_fails e = None \<and> findOne_ip_fails e = None \<and>
               (\<exists>b. getBalance e (toLowerCase s) = Inr b) \<and>
               getTransactionCount e (toLowerCase s) = Inl err) \<longrightarrow>
            retrieve l e req w = (w, \<lparr>status = 400, content = Text (message err)\<rparr>))
       \<and> (fails_a_check l e w (toLowerCase s) (ip_of req) \<longrightarrow>
            fst (retrieve l e req w) = w \<and> status (snd (retrieve l e req w)) = 400)"
proof -
  have wallet: "retrieve l e req w =
      (w, \<lparr>status = 400, content = Text ''Address has already claimed gas.''\<rparr>)"
    if "isAddress l (toLowerCase s)" and "lookups_return e (toLowerCase s) bal txCount"
      and "has_wallet_record (db w) (toLowerCase s)"
    using retrieve_rejected [OF assms that(1) that(2),
        where err = "Error ''Address has already claimed gas.''" and w = w] that(3)
    by (simp add: eligibility_def find_wallet)
  have ip: "retrieve l e req w =
      (w, \<lparr>status = 400,
           content = Text ''Your IP has already claimed gas for an address recently.''\<rparr>)"
    if "isAddress l (toLowerCase s)" and "lookups_return e (toLowerCase s) bal txCount"
      and "\<not> has_wallet_record (db w) (toLowerCase s)"
      and "has_recent_ip_record (db w) (ip_of req) (ONE_DAY l e)"
    using retrieve_rejected [OF assms that(1) that(2),
        where err = "Error ''Your IP has already claimed gas for an address recently.''" and w = w]
      that(3) that(4)
    by (simp add: eligibility_def find_wallet find_ip)
  have used: "retrieve l e req w =
      (w, \<lparr>status = 400, content = Text ''Must be a new, unused address.''\<rparr>)"
    if "isAddress l (toLowerCase s)" and "lookups_return e (toLowerCase s) bal txCount"
      and "\<not> has_wallet_record (db w) (toLowerCase s)"
      and "\<not> has_recent_ip_record (db w) (ip_of req) (ONE_DAY l e)" and "txCount \<noteq> 0"
    using retrieve_rejected [OF assms that(1) that(2),
        where err = "Error ''Must be a new, unused address.''" and w = w] that(3) that(4) that(5)
    by (simp add: eligibility_def find_wallet find_ip)
  have funded: "retrieve l e req w =
      (w, \<lparr>status = 400,
           content = Text (''Address has a non-zero balance: '' @ show_bal l bal)\<rparr>)"
    if "isAddress l (toLowerCase s)" and "lookups_return e (toLowerCase s) bal txCount"
      and "\<not> has_wallet_record (db w) (toLowerCase s)"
      and "\<not> has_recent_ip_record (db w) (ip_of req) (ONE_DAY l e)" and "txCount = 0"
      and "bal \<noteq> 0"
    using retrieve_rejected [OF assms that(1) that(2),
        where err = "Error (''Address has a non-zero balance: '' @ show_bal l bal)" and w = w]
      that(3) that(4) that(5) that(6)
    by (simp add: eligibility_def find_wallet find_ip)
  have lookup: "retrieve l e req w = (w, \<lparr>status = 400, content = Text (message err)\<rparr>)"
    if "isAddress l (toLowerCase s)"
      and "findOne_wallet_fails e = Some err
            \<or> findOne_wallet_fails e = None \<and> findOne_ip_fails e = Some err
            \<or> findOne_wallet_fails e = None \<and> findOne_ip_fails e = None \<and>
               getBalance e (toLowerCase s) = Inl err
            \<or> findOne_wallet_fails e = None \<and> findOne_ip_fails e = None \<and>
               (\<exists>b. getBalance e (toLowerCase s) = Inr b) \<and>
               getTransactionCount e (toLowerCase s) = Inl err"
    using retrieve_lookup_rejected [OF assms that(1), of e err w] that(2) by blast
  show ?thesis
    apply (rule conjI)
     apply (rule impI, erule retrieve_invalid [OF assms])
    apply (rule conjI)
     apply (rule impI, erule conjE)
     apply (intro conjI impI)
        apply (erule (2) wallet)
       apply (erule conjE, erule (3) ip)
      apply (elim conjE, erule (4) used)
     apply (elim conjE, erule (5) funded)
    apply (rule conjI)
     apply (rule impI, erule conjE, erule (1) lookup)
    apply (rule impI, erule no_check_fails_unchanged [OF assms])
    done
qed

theorem eligibility_priority_witness:
  "retrieve lib0 env_used (post (wallet_body ''0xnot-an-address'') ip1) world1 =
     (world1, \<lparr>status = 400, content = Text ''Wallet address does not appear to be valid.''\<rparr>)
   \<and> retrieve lib0 env_used (post (wallet_body addrA) ip1) world1 =
     (world1, \<lparr>status = 400, content = Text ''Address has already claimed gas.''\<rparr>)
   \<and> retrieve lib0 env_used (post (wallet_body addrB) ip1) world1 =
     (world1, \<lparr>status = 400,
               content = Text ''Your IP has already claimed gas for an address recently.''\<rparr>)
   \<and> retrieve lib0 env_used (post (wallet_body addrB) ip2) world1 =
     (world1, \<lparr>status = 400, content = Text ''Must be a new, unused address.''\<rparr>)
   \<and> retrieve lib0 env_funded (post (wallet_body addrB) ip2) world1 =
     (world1, \<lparr>status = 400, content = Text ''Address has a non-zero balance: 2e-9''\<rparr>)
   \<and> retrieve lib0 env_db_down (post (wallet_body addrB) ip2) world1 =
     (world1, \<lparr>status = 400, content = Text ''Topology is closed''\<rparr>)"
proof -
  have c1: "retrieve lib0 env_used (post (wallet_body ''0xnot-an-address'') ip1) world1 =
     (world1, \<lparr>status = 400, content = Text ''Wallet address does not appear to be valid.''\<rparr>)"
    using eligibility_priority [OF post_wallet(2) [of "''0xnot-an-address''" ip1],
        where l = lib0 and e = env_used and w = world1] invalid_word
    by simp
  have c2: "retrieve lib0 env_used (post (wallet_body addrA) ip1) world1 =
     (world1, \<lparr>status = 400, content = Text ''Address has already claimed gas.''\<rparr>)"
    using eligibility_priority [OF post_wallet(2) [of addrA ip1],
        where l = lib0 and e = env_used and w = world1 and bal = 2000000000 and txCount = 3]
    by (simp add: lower_addrA_id valid_addrA returns world1_facts)
  have c3: "retrieve lib0 env_used (post (wallet_body addrB) ip1) world1 =
     (world1, \<lparr>status = 400,
               content = Text ''Your IP has already claimed gas for an address recently.''\<rparr>)"
    using eligibility_priority [OF post_wallet(2) [of addrB ip1],
        where l = lib0 and e = env_used and w = world1 and bal = 2000000000 and txCount = 3]
    by (simp add: lower_addrB_id valid_addrB returns world1_facts post_wallet(3) day_lengths
        clocks)
  have c4: "retrieve lib0 env_used (post (wallet_body addrB) ip2) world1 =
     (world1, \<lparr>status = 400, content = Text ''Must be a new, unused address.''\<rparr>)"
    using eligibility_priority [OF post_wallet(2) [of addrB ip2],
        where l = lib0 and e = env_used and w = world1 and bal = 2000000000 and txCount = 3]
    by (simp add: lower_addrB_id valid_addrB returns world1_facts post_wallet(3))
  have c5: "retrieve lib0 env_funded (post (wallet_body addrB) ip2) world1 =
     (world1, \<lparr>status = 400, content = Text ''Address has a non-zero balance: 2e-9''\<rparr>)"
    using eligibility_priority [OF post_wallet(2) [of addrB ip2],
        where l = lib0 and e = env_funded and w = world1 and bal = 2000000000 and txCount = 0]
    by (simp add: lower_addrB_id valid_addrB returns world1_facts post_wallet(3)
        show_bal_lib0)
  have down: "findOne_wallet_fails env_db_down = Some (Error ''Topology is closed'')"
    by (simp add: env_db_down_def)
  have c6: "retrieve lib0 env_db_down (post (wallet_body addrB) ip2) world1 =
     (world1, \<lparr>status = 400, content = Text ''Topology is closed''\<rparr>)"
    using eligibility_priority [OF post_wallet(2) [of addrB ip2],
        where l = lib0 and e = env_db_down and w = world1
          and err = "Error ''Topology is closed''"] down
    by (simp add: lower_addrB_id valid_addrB)
  show ?thesis
    using c1 c2 c3 c4 c5 c6 by (intro conjI)
qed

text \<open>
  As stated, C2 fails in two ways. The handler awaits all four lookups before the first
  check, so for a wallet that has a record the rejected balance query is what the answer
  reports, not the wallet check. And the IP check does not count 24 hours: on a day that
  is 23 hours long, a request from an IP whose record is 23 and a half hours old passes
  it, and is paid.
\<close>

theorem eligibility_priority_counterexample:
  "isAddress lib0 (toLowerCase addrA)
   \<and> has_wallet_record (db world1) (toLowerCase addrA)
   \<and> retrieve lib0 env_rpc_down (post (wallet_body addrA) ip1) world1 =
       (world1, \<lparr>status = 400, content = Text ''connection not open on send()''\<rparr>)
   \<and> has_recent_ip_record (db world1) ip1 (now_moment env_23h30 - 24 * 60 * 60 * 1000)
   \<and> status (snd (retrieve lib_short_day env_23h30 (post (wallet_body addrB) ip1) world1)) = 200
   \<and> length (sent (fst (retrieve lib_short_day env_23h30 (post (wallet_body addrB) ip1) world1)))
       = length (sent world1) + 1"
proof -
  have a1: "isAddress lib0 (toLowerCase addrA)"
    by (simp add: lower_addrA_id valid_addrA)
  have a2: "has_wallet_record (db world1) (toLowerCase addrA)"
    by (simp add: lower_addrA_id world1_facts)
  have down: "findOne_wallet_fails env_rpc_down = None \<and> findOne_ip_fails env_rpc_down = None \<and>
      getBalance env_rpc_down (toLowerCase addrA) = Inl (Error ''connection not open on send()'')"
    by (simp add: env_rpc_down_def env_ok_def)
  have a3: "retrieve lib0 env_rpc_down (post (wallet_body addrA) ip1) world1 =
       (world1, \<lparr>status = 400, content = Text ''connection not open on send()''\<rparr>)"
    using retrieve_lookup_rejected [OF post_wallet(2) a1,
        of env_rpc_down "Error ''connection not open on send()''" ip1 world1] down
    by simp
  have b1: "has_recent_ip_record (db world1) ip1 (now_moment env_23h30 - 24 * 60 * 60 * 1000)"
    by (simp add: world1_facts clocks)
  have b2: "status (snd (retrieve lib_short_day env_23h30 (post (wallet_body addrB) ip1) world1))
      = 200"
    "length (sent (fst (retrieve lib_short_day env_23h30 (post (wallet_body addrB) ip1) world1)))
       = length (sent world1) + 1"
    by (simp_all add: short_day_run)
  show ?thesis
    using a1 a2 a3 b1 b2 by (intro conjI)
qed

subsection \<open>A wallet that has claimed\<close>

text \<open>
  C4, amended. A request for a wallet address that has a claim record, of any age, is
  answered 400 and leaves the state as it was, the record and its \<open>lastVisit\<close> with it.
  Once the address has passed validation, the answer is the already-claimed error when
  the four lookups have returned, and the error of the first lookup that is rejected
  otherwise.
\<close>

theorem claimed_wallet_rejected:
  assumes "get_prop (body req) ''walletAddress'' = JStr s"
    and "r \<in> set (db w)" and "walletAddress r = toLowerCase s"
  shows "status (snd (retrieve l e req w)) = 400
       \<and> fst (retrieve l e req w) = w
       \<and> r \<in> set (db (fst (retrieve l e req w)))
       \<and> (isAddress l (toLowerCase s) \<and> lookups_return e (toLowerCase s) bal txCount \<longrightarrow>
            retrieve l e req w =
              (w, \<lparr>status = 400, content = Text ''Address has already claimed gas.''\<rparr>))
       \<and> (isAddress l (toLowerCase s) \<and>
           (findOne_wallet_fails e = Some err
            \<or> findOne_wallet_fails e = None \<and> findOne_ip_fails e = Some err
            \<or> findOne_wallet_fails e = None \<and> findOne_ip_fails e = None \<and>
               getBalance e (toLowerCase s) = Inl err
            \<or> findOne_wallet_fails e = None \<and> findOne_ip_fails e = None \<and>
               (\<exists>b. getBalance e (toLowerCase s) = Inr b) \<and>
               getTransactionCount e (toLowerCase s) = Inl err) \<longrightarrow>
            retrieve l e req w = (w, \<lparr>status = 400, content = Text (message err)\<rparr>))"
proof -
  have rec: "has_wallet_record (db w) (toLowerCase s)"
    using assms(2,3) by (auto simp: has_wallet_record_def)
  have "\<not> (fst (retrieve l e req w) \<noteq> w \<or> status (snd (retrieve l e req w)) = 200)"
    using retrieve_effect_needs_eligible [OF assms(1), of l e w] rec by blast
  then have same: "fst (retrieve l e req w) = w" and st: "status (snd (retrieve l e req w)) = 400"
    using retrieve_status [of l e req w] by auto
  have msg: "retrieve l e req w =
      (w, \<lparr>status = 400, content = Text ''Address has already claimed gas.''\<rparr>)"
    if "isAddress l (toLowerCase s)" and "lookups_return e (toLowerCase s) bal txCount"
    using retrieve_rejected [OF assms(1) that,
        where err = "Error ''Address has already claimed gas.''" and w = w] rec
    by (simp add: eligibility_def find_wallet)
  have lookup: "retrieve l e req w = (w, \<lparr>status = 400, content = Text (message err)\<rparr>)"
    if "isAddress l (toLowerCase s)"
      and "findOne_wallet_fails e = Some err
            \<or> findOne_wallet_fails e = None \<and> findOne_ip_fails e = Some err
            \<or> findOne_wallet_fails e = None \<and> findOne_ip_fails e = None \<and>
               getBalance e (toLowerCase s) = Inl err
            \<or> findOne_wallet_fails e = None \<and> findOne_ip_fails e = None \<and>
               (\<exists>b. getBalance e (toLowerCase s) = Inr b) \<and>
               getTransactionCount e (toLowerCase s) = Inl err"
    using retrieve_lookup_rejected [OF assms(1) that(1), of e err w] that(2) by blast
  have kept: "r \<in> set (db (fst (retrieve l e req w)))"
    using same assms(2) by simp
  show ?thesis
    apply (intro conjI)
        apply (rule st)
       apply (rule same)
      apply (rule kept)
     apply (rule impI, erule conjE, erule (1) msg)
    apply (rule impI, erule conjE, erule (1) lookup)
    done
qed

theorem claimed_wallet_rejected_witness:
  "retrieve lib0 env_ok (post (wallet_body addrA_mixed) ip2) world_old =
     (world_old, \<lparr>status = 400, content = Text ''Address has already claimed gas.''\<rparr>)
   \<and> \<lparr>walletAddress = addrA, ipAddress = ip1, lastVisit = 0\<rparr> \<in> set (db world_old)"
proof -
  let ?r = "\<lparr>walletAddress = addrA, ipAddress = ip1, lastVisit = 0\<rparr>"
  have h2: "?r \<in> set (db world_old)"
    by (simp add: world_old_def)
  have h3: "walletAddress ?r = toLowerCase addrA_mixed"
    by (simp add: lower_addrA)
  show ?thesis
    using claimed_wallet_rejected [OF post_wallet(2) [of addrA_mixed ip2] h2 h3,
        where l = lib0 and e = env_ok and bal = 0 and txCount = 0] returns(1) [of addrA] h2
    by (simp add: lower_addrA valid_addrA)
qed

text \<open>
  As stated, with the already-claimed error in every case, C4 fails: when a lookup is
  rejected, the answer carries that error. The state is unchanged all the same.
\<close>

theorem claimed_wallet_counterexample:
  "isAddress lib0 (toLowerCase addrA_mixed)
   \<and> has_wallet_record (db world_old) (toLowerCase addrA_mixed)
   \<and> retrieve lib0 env_count_fails (post (wallet_body addrA_mixed) ip2) world_old =
       (world_old, \<lparr>status = 400, content = Text ''Invalid JSON RPC response''\<rparr>)"
proof -
  have a1: "isAddress lib0 (toLowerCase addrA_mixed)"
    by (simp add: lower_addrA valid_addrA)
  have a2: "has_wallet_record (db world_old) (toLowerCase addrA_mixed)"
    by (simp add: lower_addrA has_wallet_record_def world_old_def)
  have down: "findOne_wallet_fails env_count_fails = None \<and>
      findOne_ip_fails env_count_fails = None \<and>
      getBalance env_count_fails (toLowerCase addrA_mixed) = Inr 0 \<and>
      getTransactionCount env_count_fails (toLowerCase addrA_mixed) =
        Inl (Error ''Invalid JSON RPC response'')"
    by (simp add: env_count_fails_def env_ok_def)
  have a3: "retrieve lib0 env_count_fails (post (wallet_body addrA_mixed) ip2) world_old =
       (world_old, \<lparr>status = 400, content = Text ''Invalid JSON RPC response''\<rparr>)"
    using retrieve_lookup_rejected [OF post_wallet(2) a1,
        of env_count_fails "Error ''Invalid JSON RPC response''" ip2 world_old] down
    by simp
  show ?thesis
    using a1 a2 a3 by (intro conjI)
qed

subsection \<open>A payout that is answered 400\<close>




subsection \<open>Failures inside the handler\<close>

text \<open>
  C6, amended. A failure raised in the handler by the address validation, by a database
  lookup or a chain query, by the account lookup or the transaction builder of the payout,
  by the write of the claim record or by the writing of the response is answered 400 with
  the message of that error as the body. A failure of the payout's signature or broadcast
  is caught inside \<^verbatim>\<open>payoutFSN\<close> and replaced by an error whose message starts with
  \<^verbatim>\<open>Sending faucet gas failed: \<close>; the handler answers it with status 400 and a body that
  starts with that text, and nothing is sent. No answer of the handler has a status other
  than 200 and 400.
\<close>

theorem failures_answer_400:
  "(status (snd (retrieve l e req w)) = 200 \<or> status (snd (retrieve l e req w)) = 400)
   \<and> (get_prop (body req) ''walletAddress'' = JStr s \<longrightarrow>
        (\<not> isAddress l (toLowerCase s) \<longrightarrow>
           retrieve l e req w =
             (w, \<lparr>status = 400, content = Text ''Wallet address does not appear to be valid.''\<rparr>))
      \<and> (isAddress l (toLowerCase s) \<and>
          (findOne_wallet_fails e = Some err
           \<or> findOne_wallet_fails e = None \<and> findOne_ip_fails e = Some err
           \<or> findOne_wallet_fails e = None \<and> findOne_ip_fails e = None \<and>
              getBalance e (toLowerCase s) = Inl err
           \<or> findOne_wallet_fails e = None \<and> findOne_ip_fails e = None \<and>
              (\<exists>b. getBalance e (toLowerCase s) = Inr b) \<and>
              getTransactionCount e (toLowerCase s) = Inl err) \<longrightarrow>
           retrieve l e req w = (w, \<lparr>status = 400, content = Text (message err)\<rparr>))
      \<and> (isAddress l (toLowerCase s) \<and> lookups_return e (toLowerCase s) 0 0 \<and>
          \<not> has_wallet_record (db w) (toLowerCase s) \<and>
          \<not> has_recent_ip_record (db w) (ip_of req) (ONE_DAY l e) \<longrightarrow>
           (privateKeyToAccount e = Inl err \<longrightarrow>
              retrieve l e req w = (w, \<lparr>status = 400, content = Text (message err)\<rparr>))
         \<and> (privateKeyToAccount e = Inr faucet \<and>
             buildSendAssetTx e (new_tx faucet (toLowerCase s)) = Inl err \<longrightarrow>
              retrieve l e req w = (w, \<lparr>status = 400, content = Text (message err)\<rparr>))
         \<and> (privateKeyToAccount e = Inr faucet \<and>
             buildSendAssetTx e (new_tx faucet (toLowerCase s)) = Inr (g, gp) \<and>
             (signTransaction_fails e (payout_tx faucet (toLowerCase s) g gp) = Some err \<or>
              sendSignedTransaction e (payout_tx faucet (toLowerCase s) g gp) = Inl err) \<longrightarrow>
              fst (retrieve l e req w) = w \<and> status (snd (retrieve l e req w)) = 400 \<and>
              (\<exists>rest. content (snd (retrieve l e req w)) =
                 Text (''Sending faucet gas failed: '' @ rest)))
         \<and> (payout_returns e (toLowerCase s) faucet g gp rcpt \<and> updateOne_fails e = Some err \<longrightarrow>
              retrieve l e req w =
                (w\<lparr>sent := sent w @ [payout_tx faucet (toLowerCase s) g gp]\<rparr>,
                 \<lparr>status = 400, content = Text (message err)\<rparr>))
         \<and> (payout_returns e (toLowerCase s) faucet g gp rcpt \<and> updateOne_fails e = None \<and>
             res_json_fails e = Some err \<longrightarrow>
              snd (retrieve l e req w) = \<lparr>status = 400, content = Text (message err)\<rparr>)))"
  (is "_ \<and> (_ \<longrightarrow> ?strings)")
proof -
  have with_string: "?strings" if str: "get_prop (body req) ''walletAddress'' = JStr s"
  proof -
    have lookup: "retrieve l e req w = (w, \<lparr>status = 400, content = Text (message err)\<rparr>)"
      if "isAddress l (toLowerCase s)"
        and "findOne_wallet_fails e = Some err
           \<or> findOne_wallet_fails e = None \<and> findOne_ip_fails e = Some err
           \<or> findOne_wallet_fails e = None \<and> findOne_ip_fails e = None \<and>
              getBalance e (toLowerCase s) = Inl err
           \<or> findOne_wallet_fails e = None \<and> findOne_ip_fails e = None \<and>
              (\<exists>b. getBalance e (toLowerCase s) = Inr b) \<and>
              getTransactionCount e (toLowerCase s) = Inl err"
      using retrieve_lookup_rejected [OF str that(1), of e err w] that(2) by blast
    have paying: "retrieve l e req w =
        (case payoutFSN e (toLowerCase s) w of
           (w1, Inl err) \<Rightarrow> (w1, \<lparr>status = 400, content = Text (message err)\<rparr>)
         | (w1, Inr rcpt) \<Rightarrow>
            (case updateOne_fails e of
               Some err \<Rightarrow> (w1, \<lparr>status = 400, content = Text (message err)\<rparr>)
             | None \<Rightarrow>
                 (w1\<lparr>db := db w @ [\<lparr>walletAddress = toLowerCase s, ipAddress = ip_of req,
                                      lastVisit = now_date e\<rparr>]\<rparr>,
                  case res_json_fails e of
                    Some err \<Rightarrow> \<lparr>status = 400, content = Text (message err)\<rparr>
                  | None \<Rightarrow>
                      \<lparr>status = 200,
                       content = Json (transactionHash rcpt)
                         (''Success. Gas will be sent to '' @ toLowerCase s @
                          '' shortly.'')\<rparr>)))"
      if "isAddress l (toLowerCase s)" and "lookups_return e (toLowerCase s) 0 0"
        and "\<not> has_wallet_record (db w) (toLowerCase s)"
        and "\<not> has_recent_ip_record (db w) (ip_of req) (ONE_DAY l e)"
      using retrieve_try_eligible [OF str that]
      by (simp add: retrieve_def split: prod.splits sum.splits option.splits)
    have p1: "retrieve l e req w = (w, \<lparr>status = 400, content = Text (message err)\<rparr>)"
      if "isAddress l (toLowerCase s)" and "lookups_return e (toLowerCase s) 0 0"
        and "\<not> has_wallet_record (db w) (toLowerCase s)"
        and "\<not> has_recent_ip_record (db w) (ip_of req) (ONE_DAY l e)"
        and "privateKeyToAccount e = Inl err"
      using paying [OF that(1-4)] that(5) by (simp add: payoutFSN_def)
    have p2: "retrieve l e req w = (w, \<lparr>status = 400, content = Text (message err)\<rparr>)"
      if "isAddress l (toLowerCase s)" and "lookups_return e (toLowerCase s) 0 0"
        and "\<not> has_wallet_record (db w) (toLowerCase s)"
        and "\<not> has_recent_ip_record (db w) (ip_of req) (ONE_DAY l e)"
        and "privateKeyToAccount e = Inr faucet"
        and "buildSendAssetTx e (new_tx faucet (toLowerCase s)) = Inl err"
      using paying [OF that(1-4)] that(5,6) by (simp add: payoutFSN_def Let_def)
    have p3: "fst (retrieve l e req w) = w \<and> status (snd (retrieve l e req w)) = 400 \<and>
        (\<exists>rest. content (snd (retrieve l e req w)) =
           Text (''Sending faucet gas failed: '' @ rest))"
      if "isAddress l (toLowerCase s)" and "lookups_return e (toLowerCase s) 0 0"
        and "\<not> has_wallet_record (db w) (toLowerCase s)"
        and "\<not> has_recent_ip_record (db w) (ip_of req) (ONE_DAY l e)"
        and "privateKeyToAccount e = Inr faucet"
        and "buildSendAssetTx e (new_tx faucet (toLowerCase s)) = Inr (g, gp)"
        and "signTransaction_fails e (payout_tx faucet (toLowerCase s) g gp) = Some err \<or>
             sendSignedTransaction e (payout_tx faucet (toLowerCase s) g gp) = Inl err"
    proof -
      have "retrieve l e req w =
          (w, \<lparr>status = 400, content = Text (''Sending faucet gas failed: '' @ [])\<rparr>)"
        using paying [OF that(1-4)] payoutFSN_signing [OF that(5-7), of w] by simp
      then show ?thesis
        by (simp only: fst_conv snd_conv response.simps) blast
    qed
    have p4: "retrieve l e req w =
        (w\<lparr>sent := sent w @ [payout_tx faucet (toLowerCase s) g gp]\<rparr>,
         \<lparr>status = 400, content = Text (message err)\<rparr>)"
      if "isAddress l (toLowerCase s)" and "lookups_return e (toLowerCase s) 0 0"
        and "\<not> has_wallet_record (db w) (toLowerCase s)"
        and "\<not> has_recent_ip_record (db w) (ip_of req) (ONE_DAY l e)"
        and "payout_returns e (toLowerCase s) faucet g gp rcpt" and "updateOne_fails e = Some err"
      using paying [OF that(1-4)] payoutFSN_returns [OF that(5), of w] that(6) by simp
    have p5: "snd (retrieve l e req w) = \<lparr>status = 400, content = Text (message err)\<rparr>"
      if "isAddress l (toLowerCase s)" and "lookups_return e (toLowerCase s) 0 0"
        and "\<not> has_wallet_record (db w) (toLowerCase s)"
        and "\<not> has_recent_ip_record (db w) (ip_of req) (ONE_DAY l e)"
        and "payout_returns e (toLowerCase s) faucet g gp rcpt" and "updateOne_fails e = None"
        and "res_json_fails e = Some err"
      using paying [OF that(1-4)] payoutFSN_returns [OF that(5), of w] that(6,7) by simp
    show ?thesis
      apply (rule conjI)
       apply (rule impI, erule retrieve_invalid [OF str])
      apply (rule conjI)
       apply (rule impI, erule conjE, erule (1) lookup)
      apply (rule impI, elim conjE)
      apply (rule conjI, rule impI, erule (4) p1)
      apply (rule conjI, rule impI, elim conjE, erule (5) p2)
      apply (rule conjI, rule impI, elim conjE, erule (6) p3)
      apply (rule conjI, rule impI, elim conjE, erule (5) p4)
      apply (rule impI, elim conjE, erule (6) p5)
      done
  qed
  show ?thesis
    apply (rule conjI, rule retrieve_status)
    apply (rule impI, erule with_string)
    done
qed

theorem failures_answer_400_witness:
  "retrieve lib0 env_ok (post (wallet_body ''0xnot-an-address'') ip1) world0 =
     (world0, \<lparr>status = 400, content = Text ''Wallet address does not appear to be valid.''\<rparr>)
   \<and> retrieve lib0 env_db_down (post (wallet_body addrA) ip1) world0 =
     (world0, \<lparr>status = 400, content = Text ''Topology is closed''\<rparr>)
   \<and> retrieve lib0 env_rpc_down (post (wallet_body addrA) ip1) world0 =
     (world0, \<lparr>status = 400, content = Text ''connection not open on send()''\<rparr>)
   \<and> fst (retrieve lib0 env_send_fails (post (wallet_body addrA) ip1) world0) = world0
   \<and> status (snd (retrieve lib0 env_send_fails (post (wallet_body addrA) ip1) world0)) = 400
   \<and> retrieve lib0 env_write_fails (post (wallet_body addrB) ip2) world1 =
     (world1\<lparr>sent := sent world1 @ [payout_tx faucet0 addrB 21000 1000000000]\<rparr>,
      \<lparr>status = 400, content = Text ''buffering timed out''\<rparr>)
   \<and> snd (retrieve lib0 env_json_fails (post (wallet_body addrB) ip2) world1) =
     \<lparr>status = 400, content = Text ''write after end''\<rparr>"
proof -
  have c1: "retrieve lib0 env_ok (post (wallet_body ''0xnot-an-address'') ip1) world0 =
     (world0, \<lparr>status = 400, content = Text ''Wallet address does not appear to be valid.''\<rparr>)"
    using failures_answer_400 [where l = lib0 and e = env_ok and w = world0
        and req = "post (wallet_body ''0xnot-an-address'') ip1" and s = "''0xnot-an-address''"]
      invalid_word
    by (simp add: post_wallet)
  have c2: "retrieve lib0 env_db_down (post (wallet_body addrA) ip1) world0 =
     (world0, \<lparr>status = 400, content = Text ''Topology is closed''\<rparr>)"
    using failures_answer_400 [where l = lib0 and e = env_db_down and w = world0
        and req = "post (wallet_body addrA) ip1" and s = addrA
        and err = "Error ''Topology is closed''"]
    by (simp add: post_wallet lower_addrA_id valid_addrA env_db_down_def)
  have c3: "retrieve lib0 env_rpc_down (post (wallet_body addrA) ip1) world0 =
     (world0, \<lparr>status = 400, content = Text ''connection not open on send()''\<rparr>)"
    using failures_answer_400 [where l = lib0 and e = env_rpc_down and w = world0
        and req = "post (wallet_body addrA) ip1" and s = addrA
        and err = "Error ''connection not open on send()''"]
    by (simp add: post_wallet lower_addrA_id valid_addrA env_rpc_down_def env_ok_def)
  have c4: "fst (retrieve lib0 env_send_fails (post (wallet_body addrA) ip1) world0) = world0
      \<and> status (snd (retrieve lib0 env_send_fails (post (wallet_body addrA) ip1) world0)) = 400"
    using failures_answer_400 [where l = lib0 and e = env_send_fails and w = world0
        and req = "post (wallet_body addrA) ip1" and s = addrA
        and err = "Error ''Returned error: insufficient funds''" and faucet = faucet0
        and g = 21000 and gp = 1000000000] returns(7) [of addrA]
    by (simp add: post_wallet lower_addrA_id valid_addrA world0_facts
        env_send_fails_def env_ok_def)
  have c5: "retrieve lib0 env_write_fails (post (wallet_body addrB) ip2) world1 =
     (world1\<lparr>sent := sent world1 @ [payout_tx faucet0 addrB 21000 1000000000]\<rparr>,
      \<lparr>status = 400, content = Text ''buffering timed out''\<rparr>)"
    using failures_answer_400 [where l = lib0 and e = env_write_fails and w = world1
        and req = "post (wallet_body addrB) ip2" and s = addrB
        and err = "Error ''buffering timed out''" and faucet = faucet0
        and g = 21000 and gp = 1000000000 and rcpt = rcpt0]
      returns(5) [of addrB] pays(4) [of addrB] writes(7)
    by (simp add: post_wallet lower_addrB_id valid_addrB world1_facts)
  have c6: "snd (retrieve lib0 env_json_fails (post (wallet_body addrB) ip2) world1) =
     \<lparr>status = 400, content = Text ''write after end''\<rparr>"
    using failures_answer_400 [where l = lib0 and e = env_json_fails and w = world1
        and req = "post (wallet_body addrB) ip2" and s = addrB
        and err = "Error ''write after end''" and faucet = faucet0
        and g = 21000 and gp = 1000000000 and rcpt = rcpt0]
      returns(6) [of addrB] pays(5) [of addrB] writes(8,9)
    by (simp add: post_wallet lower_addrB_id valid_addrB world1_facts)
  show ?thesis
    using c1 c2 c3 c4 c5 c6 by (intro conjI) simp_all
qed

text \<open>
  As stated, with the message of the failure as the body for each failure it lists, C6
  fails for the signature and the broadcast: line 97 passes the failure's message to
  \<^verbatim>\<open>new Error\<close> as a second argument, where it is not part of the new error's message,
  and the body is the fixed text alone.
\<close>

theorem failures_answer_400_counterexample:
  "signTransaction_fails env_sign_fails (payout_tx faucet0 addrA 21000 1000000000) =
     Some (Error ''Private key must be 32 bytes long'')
   \<and> retrieve lib0 env_sign_fails (post (wallet_body addrA) ip1) world0 =
       (world0, \<lparr>status = 400, content = Text ''Sending faucet gas failed: ''\<rparr>)
   \<and> Text ''Sending faucet gas failed: '' \<noteq>
       Text (message (Error ''Private key must be 32 bytes long''))"
proof -
  have v: "isAddress lib0 (toLowerCase addrA)"
    by (simp add: lower_addrA_id valid_addrA)
  have sign: "signTransaction_fails env_sign_fails (payout_tx faucet0 addrA 21000 1000000000) =
     Some (Error ''Private key must be 32 bytes long'')"
    by (simp add: env_sign_fails_def)
  have pay: "payoutFSN env_sign_fails (toLowerCase addrA) world0 =
      (world0, Inl (Error ''Sending faucet gas failed: ''))"
    by (simp add: payoutFSN_def env_sign_fails_def env_ok_def Let_def)
  have run: "retrieve lib0 env_sign_fails (post (wallet_body addrA) ip1) world0 =
       (world0, \<lparr>status = 400, content = Text ''Sending faucet gas failed: ''\<rparr>)"
    using retrieve_try_eligible [OF post_wallet(2) v returns(8) world0_facts(1)
        world0_facts(2), of ip1] pay
    by (simp add: retrieve_def)
  have differ: "Text ''Sending faucet gas failed: '' \<noteq>
       Text (message (Error ''Private key must be 32 bytes long''))"
    by simp
  show ?thesis
    using sign run differ by (intro conjI)
qed

subsection \<open>A second wallet from the same IP\<close>

text \<open>The first payout on the server whose day before is 23 hours long.\<close>

lemma first_run_short_day:
  "retrieve lib_short_day env_ok (post (wallet_body addrA) ip1) world0 =
     (world1, \<lparr>status = 200,
               content = Json ''0xabc''
                 (''Success. Gas will be sent to '' @ addrA @ '' shortly.'')\<rparr>)"
proof -
  have v: "isAddress lib_short_day (toLowerCase addrA)"
    by (simp add: lower_addrA_id valid_addrA)
  from retrieve_paid [OF post_wallet(2) v returns(1) world0_facts(1) world0_facts(2) pays(1)
      writes(1) writes(2)]
  show ?thesis
    by (simp add: lower_addrA_id post_wallet(3) clocks world0_def world1_def rcpt0_def)
qed

text \<open>
  C3, amended. After a request that was answered 200, and whatever steps of other
  requests were run since by clocks that are not before the first one's record, a
  request from the same IP whose cutoff (its clock less one calendar day of the server's
  time zone) is not after the first one's record is answered 400 and changes nothing,
  valid address or not. The message is the IP's when the address is valid, has no claim
  record of its own and the four lookups return; for a malformed address it is the
  validation's.
\<close>

theorem same_ip_second_wallet:
  assumes "status (snd (retrieve l e1 req1 w)) = 200"
    and "w2 = snd (interleave l sched (pool, fst (retrieve l e1 req1 w)))"
    and "\<forall>env \<in> set (map fst pool). now_date e1 \<le> now_date env"
    and "get_prop (body req2) ''walletAddress'' = JStr s2"
    and "ip_of req2 = ip_of req1"
    and "ONE_DAY l e2 \<le> now_date e1"
  shows "status (snd (retrieve l e2 req2 w2)) = 400
       \<and> fst (retrieve l e2 req2 w2) = w2
       \<and> (\<not> isAddress l (toLowerCase s2) \<longrightarrow>
            retrieve l e2 req2 w2 =
              (w2, \<lparr>status = 400, content = Text ''Wallet address does not appear to be valid.''\<rparr>))
       \<and> (isAddress l (toLowerCase s2) \<and> \<not> has_wallet_record (db w2) (toLowerCase s2) \<and>
            lookups_return e2 (toLowerCase s2) bal txCount \<longrightarrow>
            retrieve l e2 req2 w2 =
              (w2, \<lparr>status = 400,
                    content = Text ''Your IP has already claimed gas for an address recently.''\<rparr>))"
proof -
  let ?w1 = "fst (retrieve l e1 req1 w)"
  obtain wa where "db ?w1 =
      db w @ [\<lparr>walletAddress = wa, ipAddress = ip_of req1, lastVisit = now_date e1\<rparr>]"
    using retrieve_200_db [OF assms(1)] by auto
  then have first: "has_recent_ip_record (db ?w1) (ip_of req2) (ONE_DAY l e2)"
    using assms(5,6) by (simp add: has_recent_ip_record_def)
  have clocks: "\<forall>env \<in> set (map fst (fst (pool, ?w1))). ONE_DAY l e2 \<le> now_date env"
    using assms(3,6) by fastforce
  have recent: "has_recent_ip_record (db w2) (ip_of req2) (ONE_DAY l e2)"
    using interleave_recent [where pw = "(pool, ?w1)" and l = l and sched = sched, OF _ clocks]
      first assms(2) by simp
  then have "fails_a_check l e2 w2 (toLowerCase s2) (ip_of req2)"
    by (simp add: fails_a_check_def)
  then have same: "fst (retrieve l e2 req2 w2) = w2"
    and st: "status (snd (retrieve l e2 req2 w2)) = 400"
    using no_check_fails_unchanged [OF assms(4)] by simp_all
  have ip: "retrieve l e2 req2 w2 =
      (w2, \<lparr>status = 400,
            content = Text ''Your IP has already claimed gas for an address recently.''\<rparr>)"
    if "isAddress l (toLowerCase s2)" and "\<not> has_wallet_record (db w2) (toLowerCase s2)"
      and "lookups_return e2 (toLowerCase s2) bal txCount"
    using retrieve_rejected [OF assms(4) that(1) that(3),
        where err = "Error ''Your IP has already claimed gas for an address recently.''"
          and w = w2] that(2) recent
    by (simp add: eligibility_def find_wallet find_ip)
  show ?thesis
    apply (intro conjI)
       apply (rule st)
      apply (rule same)
     apply (rule impI, erule retrieve_invalid [OF assms(4)])
    apply (rule impI, elim conjE, erule (2) ip)
    done
qed

theorem same_ip_second_wallet_witness:
  "status (snd (retrieve lib0 env_ok (post (wallet_body addrA) ip1) world0)) = 200
   \<and> snd (interleave lib0 [0, 0, 0, 0, 0]
        ([(env_later, post (wallet_body addrA) ip2, Start)],
         fst (retrieve lib0 env_ok (post (wallet_body addrA) ip1) world0))) = world1
   \<and> now_date env_ok \<le> now_date env_later
   \<and> ONE_DAY lib0 env_23h30 \<le> now_date env_ok
   \<and> retrieve lib0 env_23h30 (post (wallet_body addrB) ip1) world1 =
       (world1, \<lparr>status = 400,
                 content = Text ''Your IP has already claimed gas for an address recently.''\<rparr>)"
proof -
  let ?pool = "[(env_later, post (wallet_body addrA) ip2, Start)]"
  have h1: "status (snd (retrieve lib0 env_ok (post (wallet_body addrA) ip1) world0)) = 200"
    by (simp add: first_run)
  have look: "findOne_wallet_fails env_later = None" "findOne_ip_fails env_later = None"
    "getBalance env_later addrA = Inr 0" "getTransactionCount env_later addrA = Inr 0"
    using returns(2) [of addrA] by (simp_all add: lookups_return_def)
  have between: "snd (interleave lib0 [0, 0, 0, 0, 0] (?pool, world1)) = world1"
    by (simp add: advance_def post_wallet lower_addrA_id valid_addrA findOne_def look
        eligibility_def world1_def)
  then have h2: "world1 = snd (interleave lib0 [0, 0, 0, 0, 0]
      (?pool, fst (retrieve lib0 env_ok (post (wallet_body addrA) ip1) world0)))"
    by (simp add: first_run)
  have h3: "\<forall>env \<in> set (map fst ?pool). now_date env_ok \<le> now_date env"
    by (simp add: clocks)
  have h5: "ip_of (post (wallet_body addrB) ip1) = ip_of (post (wallet_body addrA) ip1)"
    by (simp add: post_wallet(3))
  have h6: "ONE_DAY lib0 env_23h30 \<le> now_date env_ok"
    by (simp add: day_lengths clocks)
  have late: "now_date env_ok \<le> now_date env_later"
    by (simp add: clocks)
  have second: "retrieve lib0 env_23h30 (post (wallet_body addrB) ip1) world1 =
       (world1, \<lparr>status = 400,
                 content = Text ''Your IP has already claimed gas for an address recently.''\<rparr>)"
    using same_ip_second_wallet [OF h1 h2 h3 post_wallet(2) [of addrB ip1] h5 h6,
        where bal = 0 and txCount = 0] returns(3) [of "toLowerCase addrB"]
    by (simp add: lower_addrB_id valid_addrB world1_facts)
  show ?thesis
    using h1 h2 [symmetric] late h6 second by (intro conjI)
qed

text \<open>
  As stated, C3 fails in two ways. The validation of line 111 comes before the lookups,
  so a malformed second address is answered with the validation error, not the IP's. And
  the cutoff is one calendar day before the clock, not 24 hours: on a day that is 23
  hours long, a second valid address from the same IP is paid 23 and a half hours after
  the first.
\<close>

theorem same_ip_second_wallet_counterexample:
  "retrieve lib0 env_ok (post (wallet_body addrA) ip1) world0 =
     (world1, \<lparr>status = 200,
               content = Json ''0xabc''
                 (''Success. Gas will be sent to '' @ addrA @ '' shortly.'')\<rparr>)
   \<and> ''0xnot-an-address'' \<noteq> addrA
   \<and> now_date env_later - now_date env_ok < 24 * 60 * 60 * 1000
   \<and> retrieve lib0 env_later (post (wallet_body ''0xnot-an-address'') ip1) world1 =
       (world1, \<lparr>status = 400, content = Text ''Wallet address does not appear to be valid.''\<rparr>)
   \<and> retrieve lib_short_day env_ok (post (wallet_body addrA) ip1) world0 =
     (world1, \<lparr>status = 200,
               content = Json ''0xabc''
                 (''Success. Gas will be sent to '' @ addrA @ '' shortly.'')\<rparr>)
   \<and> addrB \<noteq> addrA
   \<and> now_date env_23h30 - now_date env_ok < 24 * 60 * 60 * 1000
   \<and> retrieve lib_short_day env_23h30 (post (wallet_body addrB) ip1) world1 =
     (\<lparr>db = db world1 @ [\<lparr>walletAddress = addrB, ipAddress = ip1, lastVisit = 1700084600100\<rparr>],
       sent = sent world1 @ [payout_tx faucet0 addrB 21000 1000000000]\<rparr>,
      \<lparr>status = 200,
       content = Json ''0xabc'' (''Success. Gas will be sent to '' @ addrB @ '' shortly.'')\<rparr>)"
proof -
  have second: "retrieve lib0 env_later (post (wallet_body ''0xnot-an-address'') ip1) world1 =
       (world1, \<lparr>status = 400, content = Text ''Wallet address does not appear to be valid.''\<rparr>)"
    by (rule retrieve_invalid [OF post_wallet(2) invalid_word])
  have differ: "''0xnot-an-address'' \<noteq> addrA"
    by (simp add: addrA_def)
  have soon: "now_date env_later - now_date env_ok < 24 * 60 * 60 * 1000"
    "now_date env_23h30 - now_date env_ok < 24 * 60 * 60 * 1000"
    by (simp_all add: clocks)
  have other: "addrB \<noteq> addrA"
    using addrA_neq_addrB by simp
  show ?thesis
    using first_run differ soon(1) second first_run_short_day other soon(2) short_day_run
    by (intro conjI)
qed

subsection \<open>One record for each pair\<close>

text \<open>No step, and so no schedule, takes a pair out of the collection or shortens it.\<close>

lemma step_length: "length (db w) \<le> length (db (fst (step l e req st w)))"
  using step_db [of l e req st w] upsert_length by fastforce

lemma advance_kept:
  "set (map pair_of (db (snd pw))) \<subseteq> set (map pair_of (db (snd (advance l i pw))))
   \<and> length (db (snd pw)) \<le> length (db (snd (advance l i pw)))"
proof -
  obtain pool w where pw: "pw = (pool, w)" by (cases pw)
  show ?thesis
  proof (cases "i < length pool")
    case False
    then show ?thesis using pw by (simp add: advance_def)
  next
    case True
    obtain e req st where t: "pool ! i = (e, req, st)" by (cases "pool ! i")
    have "snd (advance l i pw) = fst (step l e req st w)"
      using True pw t by (simp add: advance_def split: prod.splits)
    then show ?thesis
      using step_pairs_kept [of w l e req st] step_length [of w l e req st] pw by simp
  qed
qed

lemma interleave_kept:
  "set (map pair_of (db (snd pw))) \<subseteq> set (map pair_of (db (snd (interleave l sched pw))))
   \<and> length (db (snd pw)) \<le> length (db (snd (interleave l sched pw)))"
proof (induction sched arbitrary: pw)
  case Nil
  then show ?case by simp
next
  case (Cons i sched)
  show ?case
    using Cons.IH [of "advance l i pw"] advance_kept [of pw l i]
    by (simp del: set_map) (meson order_trans)
qed

text \<open>The step after the payout is the write of the record exactly when the payout returned.\<close>

lemma step_payout:
  "snd (step l e req (AwaitPayout wa ip) w) = AwaitWrite wa ip rcpt
     \<longleftrightarrow> snd (payoutFSN e wa w) = Inr rcpt"
  by (cases "payoutFSN e wa w") (auto split: sum.splits)

text \<open>
  C5, amended. Under any overlap of requests, from an empty collection and from any
  collection with at most one record for each pair (walletAddress, ipAddress), the
  collection has at most one record for each pair after every step, so after every
  completed request. A payout that returned is followed by the write of the record. A
  write that returns inserts exactly one record when the pair has none, and only
  refreshes the \<open>lastVisit\<close> of the pair's record when the pair has one, which a request
  can find when an overlapping request for the pair has written it. A write that is
  rejected leaves the collection as it was. No other step changes the collection, and no
  step and no schedule removes a pair or a record.
\<close>

theorem one_record_per_pair:
  "records_of (db (snd (interleave l sched (pool, world0)))) k \<le> 1
   \<and> ((\<forall>k'. records_of (db w) k' \<le> 1) \<longrightarrow>
        records_of (db (snd (interleave l sched (pool, w)))) k \<le> 1
        \<and> records_of (db (fst (step l e req st w))) k \<le> 1)
   \<and> (snd (step l e req (AwaitPayout wa ip) w) = AwaitWrite wa ip rcpt
        \<longleftrightarrow> snd (payoutFSN e wa w) = Inr rcpt)
   \<and> (updateOne_fails e = None \<and> records_of (db w) (wa, ip) = 0 \<longrightarrow>
        db (fst (step l e req (AwaitWrite wa ip rcpt) w)) =
          db w @ [\<lparr>walletAddress = wa, ipAddress = ip, lastVisit = now_date e\<rparr>])
   \<and> (updateOne_fails e = None \<and> records_of (db w) (wa, ip) = 1 \<longrightarrow>
        db (fst (step l e req (AwaitWrite wa ip rcpt) w)) =
          map (\<lambda>r. if pair_of r = (wa, ip) then r\<lparr>lastVisit := now_date e\<rparr> else r) (db w))
   \<and> (updateOne_fails e = Some err \<longrightarrow>
        step l e req (AwaitWrite wa ip rcpt) w = (w, Finished (Inl err)))
   \<and> ((\<forall>wa' ip' rcpt'. st \<noteq> AwaitWrite wa' ip' rcpt') \<longrightarrow>
        db (fst (step l e req st w)) = db w)
   \<and> set (map pair_of (db w)) \<subseteq> set (map pair_of (db (snd (interleave l sched (pool, w)))))
   \<and> length (db w) \<le> length (db (snd (interleave l sched (pool, w))))"
proof -
  have c1: "records_of (db (snd (interleave l sched (pool, world0)))) k \<le> 1"
    by (rule interleave_at_most_one) (simp add: world0_def records_of_def)
  have c2: "(\<forall>k'. records_of (db w) k' \<le> 1) \<longrightarrow>
        records_of (db (snd (interleave l sched (pool, w)))) k \<le> 1
        \<and> records_of (db (fst (step l e req st w))) k \<le> 1"
    using interleave_at_most_one [where pw = "(pool, w)" and l = l and sched = sched and k = k]
      step_at_most_one [where w = w and k = k and l = l and e = e and req = req and st = st]
    by simp
  have c3: "snd (step l e req (AwaitPayout wa ip) w) = AwaitWrite wa ip rcpt
        \<longleftrightarrow> snd (payoutFSN e wa w) = Inr rcpt"
    by (rule step_payout)
  have c4: "updateOne_fails e = None \<and> records_of (db w) (wa, ip) = 0 \<longrightarrow>
        db (fst (step l e req (AwaitWrite wa ip rcpt) w)) =
          db w @ [\<lparr>walletAddress = wa, ipAddress = ip, lastVisit = now_date e\<rparr>]"
    by (auto simp: updateOne_def upsert_absent split: option.splits)
  have c5: "updateOne_fails e = None \<and> records_of (db w) (wa, ip) = 1 \<longrightarrow>
        db (fst (step l e req (AwaitWrite wa ip rcpt) w)) =
          map (\<lambda>r. if pair_of r = (wa, ip) then r\<lparr>lastVisit := now_date e\<rparr> else r) (db w)"
    by (auto simp: updateOne_def upsert_present split: option.splits)
  have c6: "updateOne_fails e = Some err \<longrightarrow>
        step l e req (AwaitWrite wa ip rcpt) w = (w, Finished (Inl err))"
    by (simp add: updateOne_def)
  have c7: "(\<forall>wa' ip' rcpt'. st \<noteq> AwaitWrite wa' ip' rcpt') \<longrightarrow>
        db (fst (step l e req st w)) = db w"
    using step_db [of l e req st w] by blast
  have c8: "set (map pair_of (db w))
        \<subseteq> set (map pair_of (db (snd (interleave l sched (pool, w)))))"
    and c9: "length (db w) \<le> length (db (snd (interleave l sched (pool, w))))"
    using interleave_kept [of "(pool, w)" l sched] by simp_all
  show ?thesis
    using c1 c2 c3 c4 c5 c6 c7 c8 c9 by (intro conjI)
qed

theorem one_record_per_pair_witness:
  "records_of (db (snd (interleave lib0 in_turn (twice, world0)))) (addrA, ip1) \<le> 1
   \<and> db (fst (step lib0 env_ok (post (wallet_body addrA) ip1) (AwaitWrite addrA ip1 rcpt0)
        world0)) =
       [\<lparr>walletAddress = addrA, ipAddress = ip1, lastVisit = 1700000000050\<rparr>]
   \<and> db (fst (step lib0 env_soon (post (wallet_body addrA) ip1) (AwaitWrite addrA ip1 rcpt0)
        world1)) =
       [\<lparr>walletAddress = addrA, ipAddress = ip1, lastVisit = 1700000000250\<rparr>]
   \<and> db (snd (interleave lib0 in_turn (twice, world0))) =
       [\<lparr>walletAddress = addrA, ipAddress = ip1, lastVisit = 1700000000250\<rparr>]"
proof -
  note T0 = one_record_per_pair [where l = lib0 and e = env_ok and w = world0
      and req = "post (wallet_body addrA) ip1" and k = "(addrA, ip1)" and sched = in_turn
      and pool = twice and wa = addrA and ip = ip1 and rcpt = rcpt0]
  note T1 = one_record_per_pair [where l = lib0 and e = env_soon and w = world1
      and req = "post (wallet_body addrA) ip1" and k = "(addrA, ip1)" and sched = in_turn
      and pool = twice and wa = addrA and ip = ip1 and rcpt = rcpt0]
  have none: "records_of (db world0) (addrA, ip1) = 0"
    by (simp add: records_of_def world0_def)
  have one: "records_of (db world1) (addrA, ip1) = 1"
    by (simp add: records_of_def pair_of_def world1_def)
  have a: "records_of (db (snd (interleave lib0 in_turn (twice, world0)))) (addrA, ip1) \<le> 1"
    using T0 by blast
  have "db (fst (step lib0 env_ok (post (wallet_body addrA) ip1) (AwaitWrite addrA ip1 rcpt0)
        world0)) =
       db world0 @ [\<lparr>walletAddress = addrA, ipAddress = ip1, lastVisit = now_date env_ok\<rparr>]"
    using T0 none writes(1) by blast
  then have b: "db (fst (step lib0 env_ok (post (wallet_body addrA) ip1)
        (AwaitWrite addrA ip1 rcpt0) world0)) =
       [\<lparr>walletAddress = addrA, ipAddress = ip1, lastVisit = 1700000000050\<rparr>]"
    by (simp add: world0_def clocks)
  have "db (fst (step lib0 env_soon (post (wallet_body addrA) ip1) (AwaitWrite addrA ip1 rcpt0)
        world1)) =
       map (\<lambda>r. if pair_of r = (addrA, ip1) then r\<lparr>lastVisit := now_date env_soon\<rparr> else r)
         (db world1)"
    using T1 one writes(10) by blast
  then have c: "db (fst (step lib0 env_soon (post (wallet_body addrA) ip1)
        (AwaitWrite addrA ip1 rcpt0) world1)) =
       [\<lparr>walletAddress = addrA, ipAddress = ip1, lastVisit = 1700000000250\<rparr>]"
    by (simp add: world1_def pair_of_def clocks)
  have d: "db (snd (interleave lib0 in_turn (twice, world0))) =
       [\<lparr>walletAddress = addrA, ipAddress = ip1, lastVisit = 1700000000250\<rparr>]"
    by (simp add: twice_in_turn)
  show ?thesis
    using a b c d by (intro conjI)
qed

text \<open>
  As stated, with a record for every successful payout, C5 fails: when the write of the
  record is rejected after the broadcast, the payout has been made and nothing is
  inserted.
\<close>

theorem one_record_per_pair_counterexample:
  "payout_returns env_write_fails addrB faucet0 21000 1000000000 rcpt0
   \<and> records_of (db world1) (addrB, ip2) = 0
   \<and> sent (fst (retrieve lib0 env_write_fails (post (wallet_body addrB) ip2) world1)) =
       sent world1 @ [payout_tx faucet0 addrB 21000 1000000000]
   \<and> db (fst (retrieve lib0 env_write_fails (post (wallet_body addrB) ip2) world1)) = db world1
   \<and> records_of (db (fst (retrieve lib0 env_write_fails (post (wallet_body addrB) ip2) world1)))
       (addrB, ip2) = 0"
proof -
  have v: "isAddress lib0 (toLowerCase addrB)"
    by (simp add: lower_addrB_id valid_addrB)
  have nw: "\<not> has_wallet_record (db world1) (toLowerCase addrB)"
    by (simp add: lower_addrB_id world1_facts)
  have ni: "\<not> has_recent_ip_record (db world1) (ip_of (post (wallet_body addrB) ip2))
      (ONE_DAY lib0 env_write_fails)"
    by (simp add: post_wallet(3) world1_facts)
  have none: "records_of (db world1) (addrB, ip2) = 0"
    by (rule records_of_fresh) (rule world1_facts)
  have res: "fst (retrieve lib0 env_write_fails (post (wallet_body addrB) ip2) world1) =
      world1\<lparr>sent := sent world1 @ [payout_tx faucet0 addrB 21000 1000000000]\<rparr>"
    using retrieve_try_eligible [OF post_wallet(2) v returns(5) nw ni]
      payoutFSN_returns [OF pays(4), of "toLowerCase addrB" world1] writes(7)
    by (simp add: retrieve_def lower_addrB_id)
  show ?thesis
    using pays(4) [of addrB] none by (simp add: res)
qed

subsection \<open>A body without a wallet address string\<close>

text \<open>
  C10. The parsers leave an object (or an array) in \<^verbatim>\<open>req.body\<close>, which is truthy:
  the guard of line 105 does not answer. When the \<^verbatim>\<open>walletAddress\<close> of the body is
  missing or is not a string, \<^verbatim>\<open>toLowerCase\<close> raises a TypeError, and the answer is
  400 with the text the runtime gave that TypeError; the error caught is not the
  validation error of line 112, and nothing is looked up or changed.
\<close>

theorem no_wallet_string_type_error:
  assumes "is_object (body req)"
    and "\<not> is_string (get_prop (body req) ''walletAddress'')"
  shows "truthy (body req)
       \<and> retrieve_try l e req w =
           (w, Inl (TypeError (type_error_text l (get_prop (body req) ''walletAddress''))))
       \<and> snd (retrieve_try l e req w) \<noteq> Inl (Error ''Wallet address does not appear to be valid.'')
       \<and> retrieve l e req w =
           (w, \<lparr>status = 400,
                content = Text (type_error_text l (get_prop (body req) ''walletAddress''))\<rparr>)"
proof -
  have t: "truthy (body req)"
    using assms(1) by (cases "body req") auto
  have c: "call_toLowerCase l (get_prop (body req) ''walletAddress'') =
      Inl (TypeError (type_error_text l (get_prop (body req) ''walletAddress'')))"
    using assms(2) by (cases "get_prop (body req) ''walletAddress''") auto
  have tried: "retrieve_try l e req w =
      (w, Inl (TypeError (type_error_text l (get_prop (body req) ''walletAddress''))))"
    using t c by (simp add: retrieve_try_unfold)
  show ?thesis
    using t tried by (simp add: retrieve_def)
qed

theorem no_wallet_string_type_error_witness:
  "retrieve lib0 env_ok (post (JObj []) ip1) world0 =
     (world0, \<lparr>status = 400,
               content = Text ''Cannot read properties of undefined (reading 'toLowerCase')''\<rparr>)
   \<and> retrieve lib0 env_ok (post (JObj [(''walletAddress'', JNum 5)]) ip1) world0 =
     (world0, \<lparr>status = 400, content = Text ''walletAddress.toLowerCase is not a function''\<rparr>)"
proof -
  have a: "is_object (body (post (JObj []) ip1))"
    and b: "\<not> is_string (get_prop (body (post (JObj []) ip1)) ''walletAddress'')"
    by (simp_all add: post_def)
  have c: "is_object (body (post (JObj [(''walletAddress'', JNum 5)]) ip1))"
    and d: "\<not> is_string (get_prop (body (post (JObj [(''walletAddress'', JNum 5)]) ip1))
              ''walletAddress'')"
    by (simp_all add: post_def)
  show ?thesis
    using no_wallet_string_type_error [OF a b, of lib0 env_ok world0]
      no_wallet_string_type_error [OF c d, of lib0 env_ok world0]
    by (simp add: post_def lib0_def)
qed

subsection \<open>The connection keeper\<close>

lemma keep_append: "keep (evs @ evs') k = keep evs' (keep evs k)"
  by (induction evs arbitrary: k) auto

lemma handle_scheduled:
  "scheduled (handle ev k) = scheduled k @ (if ev = OnEnd then [500] else [])"
  by (cases ev) (auto simp: keepWeb3Alive_def split: list.splits)

lemma keep_scheduled:
  "scheduled (keep evs k) = scheduled k @ replicate (count_list evs OnEnd) 500"
proof (induction evs arbitrary: k)
  case Nil
  show ?case by simp
next
  case (Cons ev evs)
  show ?case
    by (simp add: Cons.IH handle_scheduled replicate_app_Cons_same)
qed

lemma handle_pending:
  "length (timers (handle ev k)) + provider (handle ev k) =
     length (timers k) + provider k + (if ev = OnEnd then 1 else 0)"
  by (cases ev) (auto simp: keepWeb3Alive_def split: list.splits)

lemma keep_pending:
  "length (timers (keep evs k)) + provider (keep evs k) =
     length (timers k) + provider k + count_list evs OnEnd"
proof (induction evs arbitrary: k)
  case Nil
  show ?case by simp
next
  case (Cons ev evs)
  show ?case
    using Cons.IH [of "handle ev k"] handle_pending [of ev k] by simp
qed

text \<open>
  C7. The connect handler marks the connection live; the error handler calls
  \<^verbatim>\<open>disconnect()\<close> on the provider; the end handler marks the connection not live and
  schedules one reconnect, 500 ms later. Over any sequence of events the delays that were
  scheduled are one 500 for each end event, whatever came before: no growth, no limit,
  and after any sequence the next end event schedules again. A timer that fires runs
  \<^verbatim>\<open>keepWeb3Alive\<close>, which makes a new provider; every scheduled reconnect is pending
  or has been made.
\<close>

theorem keeper_retries_forever:
  "isConnected (handle OnConnect k) = Some True
   \<and> disconnects (handle OnError k) = disconnects k @ [provider k]
   \<and> isConnected (handle OnEnd k) = Some False
   \<and> timers (handle OnEnd k) = timers k @ [500]
   \<and> scheduled (handle OnEnd k) = scheduled k @ [500]
   \<and> scheduled (keep evs k) = scheduled k @ replicate (count_list evs OnEnd) 500
   \<and> timers (handle OnEnd (keep evs k)) = timers (keep evs k) @ [500]
   \<and> handle OnTimeout (k\<lparr>timers := d # ds\<rparr>) = keepWeb3Alive (k\<lparr>timers := ds\<rparr>)
   \<and> provider (keepWeb3Alive k) = Suc (provider k)
   \<and> length (timers (keep evs k)) + provider (keep evs k) =
       length (timers k) + provider k + count_list evs OnEnd"
  using keep_scheduled [of evs k] keep_pending [of evs k]
  by (simp add: keepWeb3Alive_def)

theorem keeper_retries_forever_witness:
  "keep [OnConnect, OnError, OnEnd, OnTimeout, OnConnect, OnEnd] keeper0 =
     \<lparr>isConnected = Some False, provider = 2, timers = [500], scheduled = [500, 500],
      disconnects = [1]\<rparr>
   \<and> scheduled (keep [OnConnect, OnError, OnEnd, OnTimeout, OnConnect, OnEnd] keeper0) =
       scheduled keeper0 @ [500, 500]"
proof -
  have run: "keep [OnConnect, OnError, OnEnd, OnTimeout, OnConnect, OnEnd] keeper0 =
     \<lparr>isConnected = Some False, provider = 2, timers = [500], scheduled = [500, 500],
      disconnects = [1]\<rparr>"
    by (simp add: keeper0_def keepWeb3Alive_def)
  have "scheduled (keep [OnConnect, OnError, OnEnd, OnTimeout, OnConnect, OnEnd] keeper0) =
       scheduled keeper0 @ [500, 500]"
    using keeper_retries_forever
      [of keeper0 "[OnConnect, OnError, OnEnd, OnTimeout, OnConnect, OnEnd]"]
    by (simp add: numeral_2_eq_2)
  then show ?thesis
    using run by (intro conjI)
qed

subsection \<open>The rate limiter\<close>

lemma app_limits:
  "limits (fst (app l e t req sv)) = fst (rate_limit limiter t (remoteAddress req) (limits sv))"
  by (auto simp: app_def split: prod.splits bool.splits)

lemma app_refused:
  assumes "\<not> snd (rate_limit limiter t (remoteAddress req) (limits sv))"
  shows "snd (app l e t req sv) = \<lparr>status = 429, content = LibraryDefault\<rparr>"
    and "state (fst (app l e t req sv)) = state sv"
  using assms by (auto simp: app_def split: prod.splits bool.splits)

lemma app_passed:
  "(status (snd (app l e t req sv)) \<noteq> 429) = snd (rate_limit limiter t (remoteAddress req) (limits sv))"
  using retrieve_status [of l e req "state sv"]
  by (auto simp: app_def split: prod.splits bool.splits)

lemma passed_Cons:
  "passed l ((t, e, req) # rest) sv ip k =
     (if remoteAddress req = ip \<and> t div windowMs limiter = k \<and>
         snd (rate_limit limiter t (remoteAddress req) (limits sv)) then 1 else 0)
     + passed l rest (fst (app l e t req sv)) ip k"
  using app_passed [of l e t req sv]
  by (cases "app l e t req sv") (auto simp: passed_def)

lemma room_step:
  assumes "window st \<le> t div windowMs limiter"
  shows "(if i = ip \<and> t div windowMs limiter = k \<and> snd (rate_limit limiter t i st) then 1 else 0)
           + room (fst (rate_limit limiter t i st)) ip k \<le> room st ip k"
  using assms by (auto simp: rate_limit_def room_def Let_def)

lemma passed_room:
  assumes "sorted (map fst reqs)"
    and "\<forall>x \<in> set reqs. window (limits sv) \<le> fst x div windowMs limiter"
  shows "passed l reqs sv ip k \<le> room (limits sv) ip k"
  using assms
proof (induction reqs arbitrary: sv)
  case Nil
  show ?case by (simp add: passed_def)
next
  case (Cons x reqs)
  obtain t e req where x: "x = (t, e, req)" by (cases x)
  let ?sv = "fst (app l e t req sv)"
  have w: "window (limits ?sv) = t div windowMs limiter"
    by (simp add: app_limits rate_limit_def Let_def)
  have later: "\<forall>y \<in> set reqs. window (limits ?sv) \<le> fst y div windowMs limiter"
    using Cons.prems(1) x w by (auto intro: div_le_mono)
  have "passed l reqs ?sv ip k \<le> room (limits ?sv) ip k"
    using Cons.IH [OF _ later] Cons.prems(1) by simp
  moreover have "window (limits sv) \<le> t div windowMs limiter"
    using Cons.prems(2) x by simp
  ultimately show ?case
    using room_step [of "limits sv" t "remoteAddress req" ip k] x
    by (simp add: passed_Cons app_limits)
qed


text \<open>
  C8. The limiter is configured for windows of 15 minutes and 10 requests, and it is the
  first middleware of every route. For requests in the order of their arrival, at most
  10 requests of a source IP in one window are not refused by the limiter, whatever the
  route; a request over the limit is answered by the limiter with 429 and the faucet's
  state is untouched.
\<close>

theorem at_most_ten_per_window:
  assumes "sorted (map fst reqs)"
  shows "passed l reqs server0 ip k \<le> 10
       \<and> windowMs limiter = 15 * 60 * 1000
       \<and> max_hits limiter = 10
       \<and> (\<not> snd (rate_limit limiter t (remoteAddress req) (limits sv)) \<longrightarrow>
            snd (app l e t req sv) = \<lparr>status = 429, content = LibraryDefault\<rparr> \<and>
            state (fst (app l e t req sv)) = state sv)
       \<and> (window (limits sv) = t div windowMs limiter \<and>
            10 \<le> hits (limits sv) (remoteAddress req) \<longrightarrow>
            status (snd (app l e t req sv)) = 429)"
proof -
  have "passed l reqs server0 ip k \<le> room (limits server0) ip k"
    using assms by (intro passed_room) (simp_all add: server0_def)
  also have "room (limits server0) ip k = 10"
    by (simp add: room_def server0_def limiter_def)
  finally have bound: "passed l reqs server0 ip k \<le> 10" .
  have over: "status (snd (app l e t req sv)) = 429"
    if "window (limits sv) = t div windowMs limiter"
      and "10 \<le> hits (limits sv) (remoteAddress req)"
    using that app_passed [of l e t req sv]
    by (simp add: rate_limit_def limiter_def Let_def)
  show ?thesis
    using bound over app_refused [of t req sv l e] by (simp add: limiter_def)
qed

theorem at_most_ten_per_window_witness:
  "sorted (map fst burst)
   \<and> passed lib0 burst server0 ip1 0 \<le> 10
   \<and> map status (serve lib0 burst server0) =
       [404, 404, 404, 404, 404, 404, 404, 404, 404, 404, 429, 429]"
proof -
  have s: "sorted (map fst burst)"
    by (simp add: burst_def Let_def)
  have r: "map status (serve lib0 burst server0) =
       [404, 404, 404, 404, 404, 404, 404, 404, 404, 404, 429, 429]"
    by (simp add: burst_def app_def rate_limit_def limiter_def server0_def
        get_root_def Let_def)
  show ?thesis
    using s at_most_ten_per_window [OF s, of lib0 ip1 0] r by simp
qed

end
